theory Spec2Isabelle
  imports Main "HOL-Library.Word"
begin

section \<open>Errors\<close>

text \<open>
  The translator has no recoverable errors. \<open>CHECK\<close> and \<open>LOG(FATAL)\<close> abort the process
  (\<open>Fatal\<close>, with the message of the source where it has one), the solver's C++ interface
  throws on an ill-formed request (\<open>Z3Exception\<close>), and a member call on a null node or a
  null type, or a cast to the wrong node class, crashes (\<open>Crash\<close>). Every such exit is a
  left value of the result.
\<close>

datatype error = Fatal string | Z3Exception | Crash

definition is_fatal :: "error + 'a \<Rightarrow> bool" where
  "is_fatal r = (case r of Inl (Fatal m) \<Rightarrow> True | _ \<Rightarrow> False)"

section \<open>Solver terms\<close>

text \<open>
  The part of the solver's term language that the translator builds and inspects. A function
  symbol has a kind, a name, numeric parameters (the value of a numeral, the bounds of an
  extraction, the amount of an extension), a domain and a range. The symbols of conjunction
  and disjunction are binary and associative: an application of them may carry more than two
  arguments while the symbol's arity stays two.
\<close>

datatype z3_sort = BoolSort | IntSort | BvSort nat | FpSort nat nat | UninterpretedSort string

datatype decl_kind =
    OP_TRUE | OP_FALSE | OP_EQ | OP_DISTINCT | OP_AND | OP_OR | OP_NOT
  | OP_ANUM | OP_BNUM | OP_BADD | OP_BSUB | OP_BSREM | OP_BSREM_I | OP_BAND | OP_BXOR
  | OP_BASHR | OP_BLSHR | OP_SIGN_EXT | OP_ZERO_EXT | OP_EXTRACT | OP_FPA_NUM
  | OP_INTERNAL | OP_UNINTERPRETED

datatype func_decl =
  FuncDecl (decl_kind: decl_kind) (decl_name: string) (decl_params: "nat list")
           (decl_domain: "z3_sort list") (decl_range: z3_sort)

datatype z3_expr = App func_decl "z3_expr list" | Var nat z3_sort | Quantifier z3_expr

definition arity :: "func_decl \<Rightarrow> nat" where
  "arity d = length (decl_domain d)"

fun is_app :: "z3_expr \<Rightarrow> bool" where
  "is_app (App d args) = True"
| "is_app e = False"

fun is_quantifier :: "z3_expr \<Rightarrow> bool" where
  "is_quantifier (Quantifier b) = True"
| "is_quantifier e = False"

fun num_args :: "z3_expr \<Rightarrow> nat" where
  "num_args (App d args) = length args"
| "num_args e = 0"

fun args_of :: "z3_expr \<Rightarrow> z3_expr list" where
  "args_of (App d args) = args"
| "args_of e = []"

definition is_const :: "z3_expr \<Rightarrow> bool" where
  "is_const e = (is_app e \<and> num_args e = 0)"

fun get_sort :: "z3_expr \<Rightarrow> z3_sort" where
  "get_sort (App d args) = decl_range d"
| "get_sort (Var i s) = s"
| "get_sort (Quantifier b) = BoolSort"

text \<open>\<open>expr::decl()\<close> is defined on applications only.\<close>

fun decl :: "z3_expr \<Rightarrow> error + func_decl" where
  "decl (App d args) = Inr d"
| "decl e = Inl Z3Exception"

text \<open>\<open>expr::arg(i)\<close> with the bound check of the solver.\<close>

definition arg :: "z3_expr \<Rightarrow> nat \<Rightarrow> error + z3_expr" where
  "arg e i = (if i < num_args e then Inr (args_of e ! i) else Inl Z3Exception)"

definition is_bool :: "z3_expr \<Rightarrow> bool" where
  "is_bool e = (get_sort e = BoolSort)"

fun sort_is_bv :: "z3_sort \<Rightarrow> bool" where
  "sort_is_bv (BvSort n) = True"
| "sort_is_bv s = False"

definition is_bv :: "z3_expr \<Rightarrow> bool" where
  "is_bv e = sort_is_bv (get_sort e)"

fun bv_size :: "z3_sort \<Rightarrow> nat" where
  "bv_size (BvSort n) = n"
| "bv_size s = 0"

subsection \<open>Term constructors of the solver interface\<close>

text \<open>
  Each constructor checks the sorts of its arguments as the solver does and builds the
  application without rewriting it.
\<close>

definition bool_val :: "bool \<Rightarrow> z3_expr" where
  "bool_val b = (if b then App (FuncDecl OP_TRUE ''true'' [] [] BoolSort) []
                 else App (FuncDecl OP_FALSE ''false'' [] [] BoolSort) [])"

text \<open>
  \<open>context::num_val(int n, sort s)\<close>: the numeral \<open>n\<close> of an integer or bit-vector sort. The
  argument is a C \<open>int\<close>; in a bit-vector sort of width \<open>w\<close> the numeral is \<open>n mod 2 ^ w\<close>.
  Every other sort is rejected. (The parameters of a symbol are natural numbers, so a negative
  integer numeral has no term here; the translator never asks for one.)
\<close>

fun num_val :: "int \<Rightarrow> z3_sort \<Rightarrow> error + z3_expr" where
  "num_val n (BvSort w) = Inr (App (FuncDecl OP_BNUM ''bv'' [nat (n mod 2 ^ w)] [] (BvSort w)) [])"
| "num_val n IntSort = (if 0 \<le> n then Inr (App (FuncDecl OP_ANUM ''Int'' [nat n] [] IntSort) [])
                        else Inl Z3Exception)"
| "num_val n s = Inl Z3Exception"

definition bv_val :: "nat \<Rightarrow> nat \<Rightarrow> z3_expr" where
  "bv_val v w = App (FuncDecl OP_BNUM ''bv'' [v mod 2 ^ w] [] (BvSort w)) []"

definition z3_constant :: "string \<Rightarrow> z3_sort \<Rightarrow> z3_expr" where
  "z3_constant nm s = App (FuncDecl OP_UNINTERPRETED nm [] [] s) []"

definition function1 :: "string \<Rightarrow> z3_sort \<Rightarrow> z3_sort \<Rightarrow> func_decl" where
  "function1 nm d r = FuncDecl OP_UNINTERPRETED nm [] [d] r"

definition function2 :: "string \<Rightarrow> z3_sort \<Rightarrow> z3_sort \<Rightarrow> z3_sort \<Rightarrow> func_decl" where
  "function2 nm d1 d2 r = FuncDecl OP_UNINTERPRETED nm [] [d1, d2] r"

text \<open>\<open>func_decl::operator()\<close>: the arguments must have the sorts of the domain.\<close>

definition apply_decl :: "func_decl \<Rightarrow> z3_expr list \<Rightarrow> error + z3_expr" where
  "apply_decl f xs = (if map get_sort xs = decl_domain f then Inr (App f xs) else Inl Z3Exception)"

definition mk_eq :: "z3_expr \<Rightarrow> z3_expr \<Rightarrow> error + z3_expr" where
  "mk_eq a b = (if get_sort a = get_sort b
                then Inr (App (FuncDecl OP_EQ ''='' [] [get_sort a, get_sort b] BoolSort) [a, b])
                else Inl Z3Exception)"

definition mk_distinct :: "z3_expr \<Rightarrow> z3_expr \<Rightarrow> error + z3_expr" where
  "mk_distinct a b = (if get_sort a = get_sort b
                then Inr (App (FuncDecl OP_DISTINCT ''distinct'' [] [get_sort a, get_sort b] BoolSort) [a, b])
                else Inl Z3Exception)"

definition mk_not :: "z3_expr \<Rightarrow> error + z3_expr" where
  "mk_not a = (if is_bool a then Inr (App (FuncDecl OP_NOT ''not'' [] [BoolSort] BoolSort) [a])
               else Inl Z3Exception)"

definition mk_bool_op :: "decl_kind \<Rightarrow> string \<Rightarrow> z3_expr \<Rightarrow> z3_expr \<Rightarrow> error + z3_expr" where
  "mk_bool_op k nm a b = (if is_bool a \<and> is_bool b
                then Inr (App (FuncDecl k nm [] [BoolSort, BoolSort] BoolSort) [a, b])
                else Inl Z3Exception)"

definition mk_and :: "z3_expr \<Rightarrow> z3_expr \<Rightarrow> error + z3_expr" where
  "mk_and = mk_bool_op OP_AND ''and''"

definition mk_or :: "z3_expr \<Rightarrow> z3_expr \<Rightarrow> error + z3_expr" where
  "mk_or = mk_bool_op OP_OR ''or''"

definition mk_bv_op :: "decl_kind \<Rightarrow> string \<Rightarrow> z3_expr \<Rightarrow> z3_expr \<Rightarrow> error + z3_expr" where
  "mk_bv_op k nm a b = (if is_bv a \<and> get_sort a = get_sort b
                then Inr (App (FuncDecl k nm [] [get_sort a, get_sort b] (get_sort a)) [a, b])
                else Inl Z3Exception)"

definition mk_bvadd :: "z3_expr \<Rightarrow> z3_expr \<Rightarrow> error + z3_expr" where
  "mk_bvadd = mk_bv_op OP_BADD ''bvadd''"

definition mk_bvsub :: "z3_expr \<Rightarrow> z3_expr \<Rightarrow> error + z3_expr" where
  "mk_bvsub = mk_bv_op OP_BSUB ''bvsub''"

definition mk_bvsrem :: "z3_expr \<Rightarrow> z3_expr \<Rightarrow> error + z3_expr" where
  "mk_bvsrem = mk_bv_op OP_BSREM ''bvsrem''"

definition mk_bvand :: "z3_expr \<Rightarrow> z3_expr \<Rightarrow> error + z3_expr" where
  "mk_bvand = mk_bv_op OP_BAND ''bvand''"

definition mk_bvxor :: "z3_expr \<Rightarrow> z3_expr \<Rightarrow> error + z3_expr" where
  "mk_bvxor = mk_bv_op OP_BXOR ''bvxor''"

definition mk_bvashr :: "z3_expr \<Rightarrow> z3_expr \<Rightarrow> error + z3_expr" where
  "mk_bvashr = mk_bv_op OP_BASHR ''bvashr''"

definition mk_bvlshr :: "z3_expr \<Rightarrow> z3_expr \<Rightarrow> error + z3_expr" where
  "mk_bvlshr = mk_bv_op OP_BLSHR ''bvlshr''"

text \<open>
  Extension by \<open>i\<close> bits and extraction of the bits \<open>hi\<close> down to \<open>lo\<close>: the results have
  widths \<open>w + i\<close> and \<open>hi - lo + 1\<close>, and an extraction needs \<open>lo \<le> hi < w\<close>.
\<close>

definition sext :: "z3_expr \<Rightarrow> nat \<Rightarrow> error + z3_expr" where
  "sext a i = (if is_bv a
     then Inr (App (FuncDecl OP_SIGN_EXT ''sign_extend'' [i] [get_sort a]
                      (BvSort (bv_size (get_sort a) + i))) [a])
     else Inl Z3Exception)"

definition zext :: "z3_expr \<Rightarrow> nat \<Rightarrow> error + z3_expr" where
  "zext a i = (if is_bv a
     then Inr (App (FuncDecl OP_ZERO_EXT ''zero_extend'' [i] [get_sort a]
                      (BvSort (bv_size (get_sort a) + i))) [a])
     else Inl Z3Exception)"

definition z3_extract :: "z3_expr \<Rightarrow> nat \<Rightarrow> nat \<Rightarrow> error + z3_expr" where
  "z3_extract a hi lo = (if is_bv a \<and> lo \<le> hi \<and> hi < bv_size (get_sort a)
     then Inr (App (FuncDecl OP_EXTRACT ''extract'' [hi, lo] [get_sort a]
                      (BvSort (hi - lo + 1))) [a])
     else Inl Z3Exception)"

text \<open>
  The value of a closed bit-vector term built from numerals, extensions and extractions, as
  the theory of fixed-size bit-vectors defines it (an unsigned number below \<open>2 ^ w\<close>).
\<close>

fun bv_value :: "z3_expr \<Rightarrow> nat option" where
  "bv_value (App d xs) =
     (case (decl_kind d, decl_params d, xs) of
        (OP_BNUM, [v], []) \<Rightarrow> Some v
      | (OP_ZERO_EXT, [i], [a]) \<Rightarrow> bv_value a
      | (OP_SIGN_EXT, [i], [a]) \<Rightarrow>
          (case bv_value a of None \<Rightarrow> None
           | Some v \<Rightarrow> (let w = bv_size (get_sort a)
                        in Some (if w \<noteq> 0 \<and> odd (v div 2 ^ (w - 1))
                                 then v + (2 ^ i - 1) * 2 ^ w else v)))
      | (OP_EXTRACT, [hi, lo], [a]) \<Rightarrow>
          (case bv_value a of None \<Rightarrow> None
           | Some v \<Rightarrow> Some ((v div 2 ^ lo) mod 2 ^ (hi - lo + 1)))
      | _ \<Rightarrow> None)"
| "bv_value e = None"


section \<open>The C abstract syntax\<close>

text \<open>
  Types carry what the translator asks of them: the kind, the signedness and, for integer and
  floating types, the width. A null \<open>QualType\<close> is \<open>None\<close> of \<open>c_type option\<close>.
\<close>

datatype c_type =
    BoolTy | CharTy bool | IntTy bool nat | FloatTy nat
  | PointerTy c_type | ArrayTy c_type nat | StructTy string

fun isBooleanType :: "c_type \<Rightarrow> bool" where
  "isBooleanType BoolTy = True"
| "isBooleanType t = False"

fun isStructureType :: "c_type \<Rightarrow> bool" where
  "isStructureType (StructTy n) = True"
| "isStructureType t = False"

fun isRealFloatingType :: "c_type \<Rightarrow> bool" where
  "isRealFloatingType (FloatTy w) = True"
| "isRealFloatingType t = False"

fun isSignedIntegerType :: "c_type \<Rightarrow> bool" where
  "isSignedIntegerType (CharTy s) = s"
| "isSignedIntegerType (IntTy s w) = s"
| "isSignedIntegerType t = False"

fun isIntegerType :: "c_type \<Rightarrow> bool" where
  "isIntegerType BoolTy = True"
| "isIntegerType (CharTy s) = True"
| "isIntegerType (IntTy s w) = True"
| "isIntegerType t = False"

fun isCharType :: "c_type \<Rightarrow> bool" where
  "isCharType (CharTy s) = True"
| "isCharType t = False"

fun isPointerType :: "c_type \<Rightarrow> bool" where
  "isPointerType (PointerTy t) = True"
| "isPointerType t = False"

fun isArrayType :: "c_type \<Rightarrow> bool" where
  "isArrayType (ArrayTy t n) = True"
| "isArrayType t = False"

fun getPointeeType :: "c_type \<Rightarrow> c_type option" where
  "getPointeeType (PointerTy t) = Some t"
| "getPointeeType t = None"

fun getArrayDecayedType :: "c_type \<Rightarrow> c_type option" where
  "getArrayDecayedType (ArrayTy t n) = Some (PointerTy t)"
| "getArrayDecayedType t = None"

fun record_name :: "c_type \<Rightarrow> string" where
  "record_name (StructTy n) = n"
| "record_name t = []"

text \<open>
  A declaration is known by its address. A named declaration has an address and a source
  name; a value declaration adds a type, and a field its parent record. Variables are
  taken without initialiser and fields without bit width, so a declaration has no
  sub-expressions to traverse.
\<close>

datatype named_decl = NamedDecl (decl_addr: nat) (getNameAsString: string)

datatype c_decl =
    VarDecl named_decl c_type
  | FieldDecl named_decl c_type named_decl
  | FunctionDecl named_decl c_type
  | OtherDecl named_decl c_type

fun as_named :: "c_decl \<Rightarrow> named_decl" where
  "as_named (VarDecl d t) = d"
| "as_named (FieldDecl d t p) = d"
| "as_named (FunctionDecl d t) = d"
| "as_named (OtherDecl d t) = d"

fun decl_type :: "c_decl \<Rightarrow> c_type" where
  "decl_type (VarDecl d t) = t"
| "decl_type (FieldDecl d t p) = t"
| "decl_type (FunctionDecl d t) = t"
| "decl_type (OtherDecl d t) = t"

datatype unop = UO_LNot | UO_AddrOf | UO_Deref | UO_Minus | UO_Not

datatype binop =
    BO_LAnd | BO_LOr | BO_EQ | BO_NE | BO_Rem | BO_Add | BO_Sub | BO_And | BO_Xor | BO_Shr
  | BO_Mul | BO_Div | BO_Shl | BO_LT | BO_Or | BO_Assign

datatype cast_kind =
    CK_PointerToIntegral | CK_IntegralToPointer | CK_IntegralCast | CK_NullToPointer
  | CK_ArrayToPointerDecay | CK_BitCast | CK_LValueToRValue | CK_NoOp

text \<open>
  An expression node is a tree whose every node carries its own address (the first argument):
  the registry keys the forward direction by that address, not by structure. The last argument
  is the node's type. The value of a literal is a natural number, for a floating literal
  its bit pattern. A possibly null \<open>clang::Expr *\<close> is a \<open>c_expr option\<close>.
\<close>

datatype c_expr =
    IntegerLiteral nat nat c_type
  | CharacterLiteral nat nat c_type
  | FloatingLiteral nat nat c_type
  | DeclRefExpr nat c_decl c_type
  | UnaryOperator nat unop c_expr c_type
  | BinaryOperator nat binop c_expr c_expr c_type
  | CStyleCastExpr nat cast_kind c_expr c_type
  | ImplicitCastExpr nat cast_kind c_expr c_type
  | ArraySubscriptExpr nat c_expr c_expr c_type
  | MemberExpr nat c_expr c_decl bool c_type
  | ParenExpr nat c_expr c_type
  | CallExpr nat c_type
  | OtherExpr nat c_type

fun expr_addr :: "c_expr \<Rightarrow> nat" where
  "expr_addr (IntegerLiteral a v t) = a"
| "expr_addr (CharacterLiteral a v t) = a"
| "expr_addr (FloatingLiteral a v t) = a"
| "expr_addr (DeclRefExpr a d t) = a"
| "expr_addr (UnaryOperator a opc s t) = a"
| "expr_addr (BinaryOperator a opc l r t) = a"
| "expr_addr (CStyleCastExpr a k s t) = a"
| "expr_addr (ImplicitCastExpr a k s t) = a"
| "expr_addr (ArraySubscriptExpr a b i t) = a"
| "expr_addr (MemberExpr a b d arrow t) = a"
| "expr_addr (ParenExpr a s t) = a"
| "expr_addr (CallExpr a t) = a"
| "expr_addr (OtherExpr a t) = a"

fun getType :: "c_expr \<Rightarrow> c_type" where
  "getType (IntegerLiteral a v t) = t"
| "getType (CharacterLiteral a v t) = t"
| "getType (FloatingLiteral a v t) = t"
| "getType (DeclRefExpr a d t) = t"
| "getType (UnaryOperator a opc s t) = t"
| "getType (BinaryOperator a opc l r t) = t"
| "getType (CStyleCastExpr a k s t) = t"
| "getType (ImplicitCastExpr a k s t) = t"
| "getType (ArraySubscriptExpr a b i t) = t"
| "getType (MemberExpr a b d arrow t) = t"
| "getType (ParenExpr a s t) = t"
| "getType (CallExpr a t) = t"
| "getType (OtherExpr a t) = t"

section \<open>The two contexts\<close>

text \<open>
  What the translator asks of \<open>clang::ASTContext\<close> and of \<open>z3::context\<close> and takes as given:
  the target's type sizes and integer types, the integer conversion rank, the encoding of a
  type as an opaque pointer, and the solver's simplifier, structural hash and function-symbol
  ids.

  The last field is not a service of either library. \<open>GetZ3Sort\<close> and \<open>VisitFieldDecl\<close> take
  \<open>getNameAsString().c_str()\<close> of a temporary string and read through the pointer after the
  temporary has been destroyed. The read is undefined behaviour: what it finds is whatever the
  freed storage holds at that moment, which depends on the compiler, the allocator and the
  length of the name, and need not be the name. \<open>c_str_after_free\<close> gives the characters that
  are found; nothing is assumed about it.
\<close>

record env =
  getTypeSize :: "c_type \<Rightarrow> 64 word"
  getIntWidth :: "c_type \<Rightarrow> nat"
  getIntTypeForBitwidth :: "nat \<Rightarrow> bool \<Rightarrow> c_type option"
  getRealTypeForBitwidth :: "nat \<Rightarrow> c_type option"
  getIntegerTypeOrder :: "c_type \<Rightarrow> c_type \<Rightarrow> int"
  UnsignedIntTy :: c_type
  getAsOpaquePtr :: "c_type \<Rightarrow> 64 word"
  getFromOpaquePtr :: "64 word \<Rightarrow> c_type"
  simplify :: "z3_expr \<Rightarrow> z3_expr"
  hash :: "z3_expr \<Rightarrow> nat"
  get_func_decl_id :: "func_decl \<Rightarrow> nat"
  c_str_after_free :: "string \<Rightarrow> string"

section \<open>The visitor and its registry\<close>

text \<open>
  Modelled from the spec: the member declarations of the visitor class are in a header that
  is not part of the sources. The four association tables of the identity registry are typed
  from their uses: expressions and declarations are keyed by address and mapped to an index
  into a vector of terms or function symbols; terms are keyed by hash and function symbols
  by id, and mapped to a node pointer. \<open>ast_next\<close> is the next free address of the AST
  context, from which new nodes are allocated.
\<close>

record visitor =
  z3_expr_map :: "nat \<rightharpoonup> nat"
  z3_expr_vec :: "z3_expr list"
  z3_decl_map :: "nat \<rightharpoonup> nat"
  z3_decl_vec :: "func_decl list"
  c_expr_map :: "nat \<rightharpoonup> c_expr option"
  c_decl_map :: "nat \<rightharpoonup> c_decl"
  ast_next :: nat

definition Z3ConvVisitor :: "nat \<Rightarrow> visitor" where
  "Z3ConvVisitor next_addr =
     \<lparr>z3_expr_map = Map.empty, z3_expr_vec = [], z3_decl_map = Map.empty, z3_decl_vec = [],
      c_expr_map = Map.empty, c_decl_map = Map.empty, ast_next = next_addr\<rparr>"

definition InsertZ3Expr :: "visitor \<Rightarrow> c_expr \<Rightarrow> z3_expr \<Rightarrow> error + visitor" where
  "InsertZ3Expr v c_expr z_expr =
     (if z3_expr_map v (expr_addr c_expr) \<noteq> None
      then Inl (Fatal ''Check failed: iter == z3_expr_map.end()'')
      else Inr (v\<lparr>z3_expr_map := (z3_expr_map v)(expr_addr c_expr \<mapsto> length (z3_expr_vec v)),
                  z3_expr_vec := z3_expr_vec v @ [z_expr]\<rparr>))"

definition GetZ3Expr :: "visitor \<Rightarrow> c_expr \<Rightarrow> error + z3_expr" where
  "GetZ3Expr v c_expr =
     (case z3_expr_map v (expr_addr c_expr) of
        None \<Rightarrow> Inl (Fatal ''Check failed: iter != z3_expr_map.end()'')
      | Some i \<Rightarrow> if i < length (z3_expr_vec v) then Inr (z3_expr_vec v ! i) else Inl Z3Exception)"

definition InsertZ3Decl :: "visitor \<Rightarrow> c_decl \<Rightarrow> func_decl \<Rightarrow> error + visitor" where
  "InsertZ3Decl v c_decl z_decl =
     (if z3_decl_map v (decl_addr (as_named c_decl)) \<noteq> None
      then Inl (Fatal ''Check failed: iter == z3_decl_map.end()'')
      else Inr (v\<lparr>z3_decl_map := (z3_decl_map v)(decl_addr (as_named c_decl) \<mapsto> length (z3_decl_vec v)),
                  z3_decl_vec := z3_decl_vec v @ [z_decl]\<rparr>))"

definition GetZ3Decl :: "visitor \<Rightarrow> c_decl \<Rightarrow> error + func_decl" where
  "GetZ3Decl v c_decl =
     (case z3_decl_map v (decl_addr (as_named c_decl)) of
        None \<Rightarrow> Inl (Fatal ''Check failed: iter != z3_decl_map.end()'')
      | Some i \<Rightarrow> if i < length (z3_decl_vec v) then Inr (z3_decl_vec v ! i) else Inl Z3Exception)"

definition InsertCExpr :: "env \<Rightarrow> visitor \<Rightarrow> z3_expr \<Rightarrow> c_expr option \<Rightarrow> error + visitor" where
  "InsertCExpr E v z_expr c_expr =
     (let h = hash E z_expr
      in if c_expr_map v h \<noteq> None
         then Inl (Fatal ''Check failed: iter == c_expr_map.end()'')
         else Inr (v\<lparr>c_expr_map := (c_expr_map v)(h \<mapsto> c_expr)\<rparr>))"

definition GetCExpr :: "env \<Rightarrow> visitor \<Rightarrow> z3_expr \<Rightarrow> error + c_expr option" where
  "GetCExpr E v z_expr =
     (case c_expr_map v (hash E z_expr) of
        None \<Rightarrow> Inl (Fatal ''Check failed: iter != c_expr_map.end()'')
      | Some p \<Rightarrow> Inr p)"

definition InsertCValDecl :: "env \<Rightarrow> visitor \<Rightarrow> func_decl \<Rightarrow> c_decl \<Rightarrow> error + visitor" where
  "InsertCValDecl E v z_decl c_decl =
     (let i = get_func_decl_id E z_decl
      in if c_decl_map v i \<noteq> None
         then Inl (Fatal ''Check failed: iter == c_decl_map.end()'')
         else Inr (v\<lparr>c_decl_map := (c_decl_map v)(i \<mapsto> c_decl)\<rparr>))"

definition GetCValDecl :: "env \<Rightarrow> visitor \<Rightarrow> func_decl \<Rightarrow> error + c_decl" where
  "GetCValDecl E v z_decl =
     (case c_decl_map v (get_func_decl_id E z_decl) of
        None \<Rightarrow> Inl (Fatal ''Check failed: iter != c_decl_map.end()'')
      | Some d \<Rightarrow> Inr d)"


section \<open>Helpers of the translator\<close>

fun GetZ3SortSize :: "z3_sort \<Rightarrow> error + nat" where
  "GetZ3SortSize BoolSort = Inr 1"
| "GetZ3SortSize (BvSort n) = Inr n"
| "GetZ3SortSize (FpSort e s) = Inr (s + e)"
| "GetZ3SortSize (UninterpretedSort n) = Inr 0"
| "GetZ3SortSize s = Inl (Fatal ''Unknown Z3 sort: '')"

text \<open>
  A pointer is printed as \<open>0x\<close> followed by its lower-case hexadecimal digits.
\<close>

definition hex_digit :: "nat \<Rightarrow> char" where
  "hex_digit d = ''0123456789abcdef'' ! d"

fun hex_of_nat :: "nat \<Rightarrow> string" where
  "hex_of_nat n = (if n < 16 then [hex_digit n]
                   else hex_of_nat (n div 16) @ [hex_digit (n mod 16)])"

declare hex_of_nat.simps [simp del]

definition pointer_str :: "nat \<Rightarrow> string" where
  "pointer_str p = ''0x'' @ hex_of_nat p"

definition CreateZ3DeclName :: "named_decl \<Rightarrow> string" where
  "CreateZ3DeclName d = pointer_str (decl_addr d) @ ''_'' @ getNameAsString d"

text \<open>
  \<open>src\<close> and \<open>dst\<close> are \<open>size_t\<close>; their difference wraps and is read as a signed 64-bit
  number. The extension amount and the upper extraction bound are passed as \<open>unsigned\<close>.
\<close>

definition CreateZ3BitwiseCast :: "z3_expr \<Rightarrow> 64 word \<Rightarrow> 64 word \<Rightarrow> bool \<Rightarrow> error + z3_expr" where
  "CreateZ3BitwiseCast expr src dst sign =
     (if \<not> is_bv expr then Inl (Fatal ''z3::expr is not a bitvector!'')
      else let diff = sint (dst - src)
           in if diff > 0
              then (if sign then sext expr (unat (ucast (dst - src) :: 32 word))
                    else zext expr (unat (ucast (dst - src) :: 32 word)))
              else if diff < 0
              then z3_extract expr (unat (ucast dst :: 32 word)) 1
              else Inr expr)"

definition Z3BoolCast :: "env \<Rightarrow> z3_expr \<Rightarrow> error + z3_expr" where
  "Z3BoolCast E expr =
     (if is_bool expr then Inr expr
      else case num_val 0 (get_sort expr) of
             Inl x \<Rightarrow> Inl x
           | Inr zero \<Rightarrow>
               (case mk_distinct expr zero of
                  Inl x \<Rightarrow> Inl x
                | Inr cast \<Rightarrow> Inr (simplify E cast)))"

text \<open>A bit-vector sort needs a positive width.\<close>

definition mk_bv_sort :: "nat \<Rightarrow> error + z3_sort" where
  "mk_bv_sort n = (if n = 0 then Inl Z3Exception else Inr (BvSort n))"

definition GetZ3Sort :: "env \<Rightarrow> c_type \<Rightarrow> error + z3_sort" where
  "GetZ3Sort E type =
     (if isBooleanType type then Inr BoolSort
      else if isStructureType type then Inr (UninterpretedSort (c_str_after_free E (record_name type)))
      else let bitwidth = getTypeSize E type
           in if isRealFloatingType type
              then (if bitwidth = 16 then Inr (FpSort 5 11)
                    else if bitwidth = 32 then Inr (FpSort 8 24)
                    else if bitwidth = 64 then Inr (FpSort 11 53)
                    else if bitwidth = 128 then Inr (FpSort 15 113)
                    else Inl (Fatal ''Unsupported floating-point bitwidth!''))
              else mk_bv_sort (unat (ucast bitwidth :: 32 word)))"

section \<open>Forward translation: declarations\<close>

fun VisitVarDecl :: "env \<Rightarrow> visitor \<Rightarrow> c_decl \<Rightarrow> error + visitor" where
  "VisitVarDecl E v (VarDecl var ty) =
     (if z3_decl_map v (decl_addr var) \<noteq> None then Inr v
      else let z_name = CreateZ3DeclName var
           in case GetZ3Sort E ty of
                Inl x \<Rightarrow> Inl x
              | Inr z_sort \<Rightarrow>
                  (case decl (z3_constant z_name z_sort) of
                     Inl x \<Rightarrow> Inl x
                   | Inr z_decl \<Rightarrow> InsertZ3Decl v (VarDecl var ty) z_decl))"

text \<open>
  The name of a field's symbol starts from the field's parent record. The field's own name
  is taken as \<open>getNameAsString().c_str()\<close> in the first statement and appended in a later
  one, when the temporary string is gone: the characters appended are those found in the
  freed storage.
\<close>

fun VisitFieldDecl :: "env \<Rightarrow> visitor \<Rightarrow> c_decl \<Rightarrow> error + visitor" where
  "VisitFieldDecl E v (FieldDecl field ty parent) =
     (if z3_decl_map v (decl_addr field) \<noteq> None then Inr v
      else let name = c_str_after_free E (getNameAsString field);
               z_name = CreateZ3DeclName parent @ ''_'' @ name
           in case GetZ3Sort E ty of
                Inl x \<Rightarrow> Inl x
              | Inr z_sort \<Rightarrow>
                  (case decl (z3_constant z_name z_sort) of
                     Inl x \<Rightarrow> Inl x
                   | Inr z_decl \<Rightarrow> InsertZ3Decl v (FieldDecl field ty parent) z_decl))"

definition VisitFunctionDecl :: "env \<Rightarrow> visitor \<Rightarrow> c_decl \<Rightarrow> error + visitor" where
  "VisitFunctionDecl E v func = Inl (Fatal ''Unimplemented FunctionDecl visitor'')"

text \<open>
  \<open>TraverseDecl\<close> belongs to the AST library's recursive visitor: it calls the visit
  function of the declaration's class, and nothing for a class without one.
\<close>

fun TraverseDecl :: "env \<Rightarrow> visitor \<Rightarrow> c_decl \<Rightarrow> error + visitor" where
  "TraverseDecl E v (VarDecl d t) = VisitVarDecl E v (VarDecl d t)"
| "TraverseDecl E v (FieldDecl d t p) = VisitFieldDecl E v (FieldDecl d t p)"
| "TraverseDecl E v (FunctionDecl d t) = VisitFunctionDecl E v (FunctionDecl d t)"
| "TraverseDecl E v (OtherDecl d t) = Inr v"

definition GetOrCreateZ3Decl :: "env \<Rightarrow> visitor \<Rightarrow> c_decl \<Rightarrow> error + (visitor \<times> func_decl)" where
  "GetOrCreateZ3Decl E v c_decl =
     (case (if z3_decl_map v (decl_addr (as_named c_decl)) = None
            then TraverseDecl E v c_decl else Inr v) of
        Inl x \<Rightarrow> Inl x
      | Inr v1 \<Rightarrow>
          (case GetZ3Decl v1 c_decl of
             Inl x \<Rightarrow> Inl x
           | Inr z_decl \<Rightarrow>
               (case (if c_decl_map v1 (get_func_decl_id E z_decl) = None
                      then InsertCValDecl E v1 z_decl c_decl else Inr v1) of
                  Inl x \<Rightarrow> Inl x
                | Inr v2 \<Rightarrow> Inr (v2, z_decl))))"

section \<open>Forward translation: expressions\<close>

fun VisitCallExpr :: "env \<Rightarrow> visitor \<Rightarrow> c_expr \<Rightarrow> error + visitor" where
  "VisitCallExpr E v call = Inl (Fatal ''Unimplemented CallExpr visitor'')"

fun VisitDeclRefExpr :: "env \<Rightarrow> visitor \<Rightarrow> c_expr \<Rightarrow> error + visitor" where
  "VisitDeclRefExpr E v (DeclRefExpr a ref_decl ty) =
     (if z3_expr_map v a \<noteq> None then Inr v
      else case GetOrCreateZ3Decl E v ref_decl of
             Inl x \<Rightarrow> Inl x
           | Inr (v1, z_const) \<Rightarrow>
               (case apply_decl z_const [] of
                  Inl x \<Rightarrow> Inl x
                | Inr z \<Rightarrow> InsertZ3Expr v1 (DeclRefExpr a ref_decl ty) z))"

text \<open>
  A literal's value reaches \<open>num_val\<close> as a C \<open>int\<close>: the low 32 bits of the value, read
  as signed.
\<close>

definition to_int :: "64 word \<Rightarrow> int" where
  "to_int x = sint (ucast x :: 32 word)"

definition getLimitedValue :: "nat \<Rightarrow> 64 word" where
  "getLimitedValue n = (if n < 2 ^ 64 then of_nat n else - 1)"

fun VisitCharacterLiteral :: "env \<Rightarrow> visitor \<Rightarrow> c_expr \<Rightarrow> error + visitor" where
  "VisitCharacterLiteral E v (CharacterLiteral a c_val ty) =
     (if z3_expr_map v a \<noteq> None then Inr v
      else case GetZ3Sort E ty of
             Inl x \<Rightarrow> Inl x
           | Inr z_sort \<Rightarrow>
               (case num_val (to_int (of_nat c_val)) z_sort of
                  Inl x \<Rightarrow> Inl x
                | Inr z_val \<Rightarrow> InsertZ3Expr v (CharacterLiteral a c_val ty) z_val))"

fun VisitIntegerLiteral :: "env \<Rightarrow> visitor \<Rightarrow> c_expr \<Rightarrow> error + visitor" where
  "VisitIntegerLiteral E v (IntegerLiteral a val ty) =
     (if z3_expr_map v a \<noteq> None then Inr v
      else let c_val = getLimitedValue val
           in case GetZ3Sort E ty of
                Inl x \<Rightarrow> Inl x
              | Inr z_sort \<Rightarrow>
                  (case (if z_sort = BoolSort then Inr (bool_val (c_val \<noteq> 0))
                         else num_val (to_int c_val) z_sort) of
                     Inl x \<Rightarrow> Inl x
                   | Inr z_val \<Rightarrow> InsertZ3Expr v (IntegerLiteral a val ty) z_val))"

text \<open>
  The switch over the cast kind in \<open>VisitCStyleCastExpr\<close>. A host pointer has 64 bits
  (\<open>8 * sizeof(void *)\<close>).
\<close>

definition CStyleCast_switch :: "env \<Rightarrow> cast_kind \<Rightarrow> c_type \<Rightarrow> z3_expr \<Rightarrow> z3_expr \<Rightarrow> error + z3_expr" where
  "CStyleCast_switch E kind t_dst z_sub z_cast =
     (case kind of
        CK_PointerToIntegral \<Rightarrow>
          (let s_src = get_sort z_sub; s_dst = get_sort z_cast
           in apply_decl (function1 ''PtrToInt'' s_src s_dst) [z_sub])
      | CK_IntegralToPointer \<Rightarrow>
          (let s_src = get_sort z_sub; s_dst = get_sort z_cast;
               z_ptr = bv_val (unat (getAsOpaquePtr E t_dst)) 64;
               s_ptr = get_sort z_ptr
           in apply_decl (function2 ''IntToPtr'' s_ptr s_src s_dst) [z_ptr, z_sub])
      | CK_IntegralCast \<Rightarrow> Inr z_cast
      | CK_NullToPointer \<Rightarrow> Inr z_cast
      | _ \<Rightarrow> Inl (Fatal ''Unsupported cast type: ''))"

text \<open>The switch over the cast kind in \<open>VisitImplicitCastExpr\<close>.\<close>

definition ImplicitCast_switch :: "env \<Rightarrow> cast_kind \<Rightarrow> c_type \<Rightarrow> z3_expr \<Rightarrow> error + z3_expr" where
  "ImplicitCast_switch E kind ty z_sub =
     (case kind of
        CK_ArrayToPointerDecay \<Rightarrow>
          (if \<not> is_bv z_sub then Inl (Fatal ''Pointer cast operand is not a bit-vector'')
           else case GetZ3Sort E ty of
                  Inl x \<Rightarrow> Inl x
                | Inr s_ptr \<Rightarrow> apply_decl (function1 ''PtrDecay'' (get_sort z_sub) s_ptr) [z_sub])
      | _ \<Rightarrow> Inl (Fatal ''Unsupported cast type: ''))"

text \<open>The switch over the declaration kind in \<open>VisitParenExpr\<close>.\<close>

definition Paren_switch :: "z3_expr \<Rightarrow> error + z3_expr" where
  "Paren_switch z_sub =
     (case decl z_sub of
        Inl x \<Rightarrow> Inl x
      | Inr d \<Rightarrow>
          (case decl_kind d of
             OP_UNINTERPRETED \<Rightarrow>
               (let sort = get_sort z_sub; z_paren = function1 ''Paren'' sort sort
                in apply_decl z_paren [z_sub])
           | _ \<Rightarrow> Inr z_sub))"

text \<open>The switch over the opcode in \<open>VisitUnaryOperator\<close>.\<close>

definition UnaryOperator_switch :: "env \<Rightarrow> unop \<Rightarrow> c_type \<Rightarrow> z3_expr \<Rightarrow> error + z3_expr" where
  "UnaryOperator_switch E opc ty operand =
     (case opc of
        UO_LNot \<Rightarrow>
          (case Z3BoolCast E operand of
             Inl x \<Rightarrow> Inl x
           | Inr b \<Rightarrow> mk_not b)
      | UO_AddrOf \<Rightarrow>
          (case GetZ3Sort E ty of
             Inl x \<Rightarrow> Inl x
           | Inr ptr_sort \<Rightarrow> apply_decl (function1 ''AddrOf'' (get_sort operand) ptr_sort) [operand])
      | UO_Deref \<Rightarrow>
          (case GetZ3Sort E ty of
             Inl x \<Rightarrow> Inl x
           | Inr elm_sort \<Rightarrow> apply_decl (function1 ''Deref'' (get_sort operand) elm_sort) [operand])
      | _ \<Rightarrow> Inl (Fatal ''Unknown clang::UnaryOperator operation!''))"

text \<open>
  The switch over the opcode in \<open>VisitBinaryOperator\<close>. The terms of the forward direction
  are never of an arithmetic sort, so \<open>+\<close> and \<open>-\<close> are the bit-vector operations.
\<close>

definition BinaryOperator_switch :: "env \<Rightarrow> binop \<Rightarrow> c_type \<Rightarrow> z3_expr \<Rightarrow> z3_expr \<Rightarrow> error + z3_expr" where
  "BinaryOperator_switch E opc lhs_type lhs rhs =
     (case opc of
        BO_LAnd \<Rightarrow>
          (case Z3BoolCast E lhs of
             Inl x \<Rightarrow> Inl x
           | Inr l \<Rightarrow> (case Z3BoolCast E rhs of Inl x \<Rightarrow> Inl x | Inr r \<Rightarrow> mk_and l r))
      | BO_LOr \<Rightarrow>
          (case Z3BoolCast E lhs of
             Inl x \<Rightarrow> Inl x
           | Inr l \<Rightarrow> (case Z3BoolCast E rhs of Inl x \<Rightarrow> Inl x | Inr r \<Rightarrow> mk_or l r))
      | BO_EQ \<Rightarrow> mk_eq lhs rhs
      | BO_NE \<Rightarrow> mk_distinct lhs rhs
      | BO_Rem \<Rightarrow> mk_bvsrem lhs rhs
      | BO_Add \<Rightarrow> mk_bvadd lhs rhs
      | BO_Sub \<Rightarrow> mk_bvsub lhs rhs
      | BO_And \<Rightarrow> mk_bvand lhs rhs
      | BO_Xor \<Rightarrow> mk_bvxor lhs rhs
      | BO_Shr \<Rightarrow> (if isSignedIntegerType lhs_type then mk_bvashr lhs rhs else mk_bvlshr lhs rhs)
      | _ \<Rightarrow> Inl (Fatal ''Unknown clang::BinaryOperator operation!''))"

text \<open>
  \<open>TraverseStmt\<close> belongs to the AST library's recursive visitor. It is taken as the call of
  the visit function of the node's class; the subtrees are reached through the get-or-create
  calls of that visit function, which ask for every child. A node of a class without visit
  function leaves the registry as it is. Each visit function takes the node it is called on;
  the class of the node is fixed by the C++ type of the parameter, so each is defined on its
  own constructor only.
\<close>

function (sequential) GetOrCreateZ3Expr :: "env \<Rightarrow> visitor \<Rightarrow> c_expr \<Rightarrow> error + (visitor \<times> z3_expr)"
  and TraverseStmt :: "env \<Rightarrow> visitor \<Rightarrow> c_expr \<Rightarrow> error + visitor"
  and VisitCStyleCastExpr :: "env \<Rightarrow> visitor \<Rightarrow> c_expr \<Rightarrow> error + visitor"
  and VisitImplicitCastExpr :: "env \<Rightarrow> visitor \<Rightarrow> c_expr \<Rightarrow> error + visitor"
  and VisitArraySubscriptExpr :: "env \<Rightarrow> visitor \<Rightarrow> c_expr \<Rightarrow> error + visitor"
  and VisitMemberExpr :: "env \<Rightarrow> visitor \<Rightarrow> c_expr \<Rightarrow> error + visitor"
  and VisitParenExpr :: "env \<Rightarrow> visitor \<Rightarrow> c_expr \<Rightarrow> error + visitor"
  and VisitUnaryOperator :: "env \<Rightarrow> visitor \<Rightarrow> c_expr \<Rightarrow> error + visitor"
  and VisitBinaryOperator :: "env \<Rightarrow> visitor \<Rightarrow> c_expr \<Rightarrow> error + visitor"
where
  "GetOrCreateZ3Expr E v c_expr =
     (case (if z3_expr_map v (expr_addr c_expr) = None then TraverseStmt E v c_expr else Inr v) of
        Inl x \<Rightarrow> Inl x
      | Inr v1 \<Rightarrow>
          (case GetZ3Expr v1 c_expr of
             Inl x \<Rightarrow> Inl x
           | Inr z \<Rightarrow> Inr (v1, z)))"

| "TraverseStmt E v (IntegerLiteral a val t) = VisitIntegerLiteral E v (IntegerLiteral a val t)"
| "TraverseStmt E v (CharacterLiteral a val t) = VisitCharacterLiteral E v (CharacterLiteral a val t)"
| "TraverseStmt E v (FloatingLiteral a val t) = Inr v"
| "TraverseStmt E v (DeclRefExpr a d t) = VisitDeclRefExpr E v (DeclRefExpr a d t)"
| "TraverseStmt E v (UnaryOperator a opc s t) = VisitUnaryOperator E v (UnaryOperator a opc s t)"
| "TraverseStmt E v (BinaryOperator a opc l r t) = VisitBinaryOperator E v (BinaryOperator a opc l r t)"
| "TraverseStmt E v (CStyleCastExpr a k s t) = VisitCStyleCastExpr E v (CStyleCastExpr a k s t)"
| "TraverseStmt E v (ImplicitCastExpr a k s t) = VisitImplicitCastExpr E v (ImplicitCastExpr a k s t)"
| "TraverseStmt E v (ArraySubscriptExpr a b i t) = VisitArraySubscriptExpr E v (ArraySubscriptExpr a b i t)"
| "TraverseStmt E v (MemberExpr a b d arrow t) = VisitMemberExpr E v (MemberExpr a b d arrow t)"
| "TraverseStmt E v (ParenExpr a s t) = VisitParenExpr E v (ParenExpr a s t)"
| "TraverseStmt E v (CallExpr a t) = VisitCallExpr E v (CallExpr a t)"
| "TraverseStmt E v (OtherExpr a t) = Inr v"

| "VisitCStyleCastExpr E v (CStyleCastExpr a kind c_sub t_dst) =
     (if z3_expr_map v a \<noteq> None then Inr v
      else let t_src = getType c_sub;
               t_src_size = getTypeSize E t_src;
               t_dst_size = getTypeSize E t_dst
           in case GetOrCreateZ3Expr E v c_sub of
                Inl x \<Rightarrow> Inl x
              | Inr (v1, z_sub) \<Rightarrow>
                  (case CreateZ3BitwiseCast z_sub t_src_size t_dst_size (isSignedIntegerType t_src) of
                     Inl x \<Rightarrow> Inl x
                   | Inr z_cast0 \<Rightarrow>
                       (case CStyleCast_switch E kind t_dst z_sub z_cast0 of
                          Inl x \<Rightarrow> Inl x
                        | Inr z_cast \<Rightarrow> InsertZ3Expr v1 (CStyleCastExpr a kind c_sub t_dst) z_cast)))"

| "VisitImplicitCastExpr E v (ImplicitCastExpr a kind c_sub ty) =
     (if z3_expr_map v a \<noteq> None then Inr v
      else case GetOrCreateZ3Expr E v c_sub of
             Inl x \<Rightarrow> Inl x
           | Inr (v1, z_sub) \<Rightarrow>
               (case ImplicitCast_switch E kind ty z_sub of
                  Inl x \<Rightarrow> Inl x
                | Inr z \<Rightarrow> InsertZ3Expr v1 (ImplicitCastExpr a kind c_sub ty) z))"

| "VisitArraySubscriptExpr E v (ArraySubscriptExpr a base idx ty) =
     (if z3_expr_map v a \<noteq> None then Inr v
      else case GetOrCreateZ3Expr E v base of
             Inl x \<Rightarrow> Inl x
           | Inr (v1, z_base) \<Rightarrow>
               (if \<not> sort_is_bv (get_sort z_base) then Inl (Fatal ''Invalid Z3 sort for base expression'')
                else case GetOrCreateZ3Expr E v1 idx of
                       Inl x \<Rightarrow> Inl x
                     | Inr (v2, z_idx) \<Rightarrow>
                         (if \<not> sort_is_bv (get_sort z_idx)
                          then Inl (Fatal ''Invalid Z3 sort for index expression'')
                          else case GetZ3Sort E ty of
                                 Inl x \<Rightarrow> Inl x
                               | Inr elm_sort \<Rightarrow>
                                   (case apply_decl (function2 ''ArraySub'' (get_sort z_base) (get_sort z_idx)
                                                       elm_sort) [z_base, z_idx] of
                                      Inl x \<Rightarrow> Inl x
                                    | Inr z \<Rightarrow> InsertZ3Expr v2 (ArraySubscriptExpr a base idx ty) z))))"

| "VisitMemberExpr E v (MemberExpr a base member arrow ty) =
     (if z3_expr_map v a \<noteq> None then Inr v
      else case GetOrCreateZ3Decl E v member of
             Inl x \<Rightarrow> Inl x
           | Inr (v1, z_mem_decl) \<Rightarrow>
               (case apply_decl z_mem_decl [] of
                  Inl x \<Rightarrow> Inl x
                | Inr z_mem \<Rightarrow>
                    (case GetOrCreateZ3Expr E v1 base of
                       Inl x \<Rightarrow> Inl x
                     | Inr (v2, z_base) \<Rightarrow>
                         (case apply_decl (function2 ''Member'' (get_sort z_base) (get_sort z_mem)
                                            (get_sort z_mem)) [z_base, z_mem] of
                            Inl x \<Rightarrow> Inl x
                          | Inr z \<Rightarrow> InsertZ3Expr v2 (MemberExpr a base member arrow ty) z))))"

| "VisitParenExpr E v (ParenExpr a sub ty) =
     (if z3_expr_map v a \<noteq> None then Inr v
      else case GetOrCreateZ3Expr E v sub of
             Inl x \<Rightarrow> Inl x
           | Inr (v1, z_sub) \<Rightarrow>
               (case Paren_switch z_sub of
                  Inl x \<Rightarrow> Inl x
                | Inr z \<Rightarrow> InsertZ3Expr v1 (ParenExpr a sub ty) z))"

| "VisitUnaryOperator E v (UnaryOperator a opc sub ty) =
     (if z3_expr_map v a \<noteq> None then Inr v
      else case GetOrCreateZ3Expr E v sub of
             Inl x \<Rightarrow> Inl x
           | Inr (v1, operand) \<Rightarrow>
               (case UnaryOperator_switch E opc ty operand of
                  Inl x \<Rightarrow> Inl x
                | Inr z \<Rightarrow> InsertZ3Expr v1 (UnaryOperator a opc sub ty) z))"

| "VisitBinaryOperator E v (BinaryOperator a opc c_lhs c_rhs ty) =
     (if z3_expr_map v a \<noteq> None then Inr v
      else case GetOrCreateZ3Expr E v c_lhs of
             Inl x \<Rightarrow> Inl x
           | Inr (v1, lhs) \<Rightarrow>
               (case GetOrCreateZ3Expr E v1 c_rhs of
                  Inl x \<Rightarrow> Inl x
                | Inr (v2, rhs) \<Rightarrow>
                    (case BinaryOperator_switch E opc (getType c_lhs) lhs rhs of
                       Inl x \<Rightarrow> Inl x
                     | Inr z \<Rightarrow> InsertZ3Expr v2 (BinaryOperator a opc c_lhs c_rhs ty) z)))"
  by pat_completeness auto

termination
  by size_change

section \<open>Node factories\<close>

text \<open>
  Modelled from the spec: the factory operations of the AST-construction utility library
  (\<open>rellic/AST/Util\<close>) are not part of the sources. Each builds one node of the given kind
  from the given data, at the next free address of the AST context. An operand must be a
  node: the constructors of the AST library read their operands, so a null operand crashes.
\<close>

definition new_node :: "visitor \<Rightarrow> (nat \<Rightarrow> c_expr) \<Rightarrow> visitor \<times> c_expr" where
  "new_node v mk = (v\<lparr>ast_next := Suc (ast_next v)\<rparr>, mk (ast_next v))"

definition CreateIntegerLiteral :: "visitor \<Rightarrow> nat \<Rightarrow> c_type \<Rightarrow> visitor \<times> c_expr" where
  "CreateIntegerLiteral v val type = new_node v (\<lambda>a. IntegerLiteral a val type)"

definition CreateCharacterLiteral :: "visitor \<Rightarrow> nat \<Rightarrow> c_type \<Rightarrow> visitor \<times> c_expr" where
  "CreateCharacterLiteral v val type = new_node v (\<lambda>a. CharacterLiteral a val type)"

definition CreateFloatingLiteral :: "visitor \<Rightarrow> nat \<Rightarrow> c_type \<Rightarrow> visitor \<times> c_expr" where
  "CreateFloatingLiteral v val type = new_node v (\<lambda>a. FloatingLiteral a val type)"

definition CreateDeclRefExpr :: "visitor \<Rightarrow> c_decl \<Rightarrow> visitor \<times> c_expr" where
  "CreateDeclRefExpr v val = new_node v (\<lambda>a. DeclRefExpr a val (decl_type val))"

fun CreateUnaryOperator :: "visitor \<Rightarrow> unop \<Rightarrow> c_expr option \<Rightarrow> c_type \<Rightarrow> error + (visitor \<times> c_expr)" where
  "CreateUnaryOperator v opc (Some e) type = Inr (new_node v (\<lambda>a. UnaryOperator a opc e type))"
| "CreateUnaryOperator v opc None type = Inl Crash"

fun CreateNotExpr :: "visitor \<Rightarrow> c_expr option \<Rightarrow> error + (visitor \<times> c_expr)" where
  "CreateNotExpr v (Some e) = Inr (new_node v (\<lambda>a. UnaryOperator a UO_LNot e BoolTy))"
| "CreateNotExpr v None = Inl Crash"

fun CreateBinaryOperator :: "visitor \<Rightarrow> binop \<Rightarrow> c_expr option \<Rightarrow> c_expr option \<Rightarrow> c_type \<Rightarrow> error + (visitor \<times> c_expr)" where
  "CreateBinaryOperator v opc (Some l) (Some r) type = Inr (new_node v (\<lambda>a. BinaryOperator a opc l r type))"
| "CreateBinaryOperator v opc l r type = Inl Crash"

fun CreateCStyleCastExpr :: "visitor \<Rightarrow> c_type \<Rightarrow> cast_kind \<Rightarrow> c_expr option \<Rightarrow> error + (visitor \<times> c_expr)" where
  "CreateCStyleCastExpr v type kind (Some e) = Inr (new_node v (\<lambda>a. CStyleCastExpr a kind e type))"
| "CreateCStyleCastExpr v type kind None = Inl Crash"

fun CreateImplicitCastExpr :: "visitor \<Rightarrow> c_type \<Rightarrow> cast_kind \<Rightarrow> c_expr option \<Rightarrow> error + (visitor \<times> c_expr)" where
  "CreateImplicitCastExpr v type kind (Some e) = Inr (new_node v (\<lambda>a. ImplicitCastExpr a kind e type))"
| "CreateImplicitCastExpr v type kind None = Inl Crash"

fun CreateParenExpr :: "visitor \<Rightarrow> c_expr option \<Rightarrow> error + (visitor \<times> c_expr)" where
  "CreateParenExpr v (Some e) = Inr (new_node v (\<lambda>a. ParenExpr a e (getType e)))"
| "CreateParenExpr v None = Inl Crash"

fun CreateArraySubscriptExpr :: "visitor \<Rightarrow> c_expr option \<Rightarrow> c_expr option \<Rightarrow> c_type \<Rightarrow> error + (visitor \<times> c_expr)" where
  "CreateArraySubscriptExpr v (Some b) (Some i) type = Inr (new_node v (\<lambda>a. ArraySubscriptExpr a b i type))"
| "CreateArraySubscriptExpr v b i type = Inl Crash"

fun CreateMemberExpr :: "visitor \<Rightarrow> c_expr option \<Rightarrow> c_decl \<Rightarrow> c_type \<Rightarrow> bool \<Rightarrow> error + (visitor \<times> c_expr)" where
  "CreateMemberExpr v (Some b) member type is_arrow = Inr (new_node v (\<lambda>a. MemberExpr a b member is_arrow type))"
| "CreateMemberExpr v None member type is_arrow = Inl Crash"

section \<open>Reverse translation\<close>

text \<open>The decimal numeral of a numeral term, as a number.\<close>

fun get_numeral :: "z3_expr \<Rightarrow> error + nat" where
  "get_numeral (App d []) = (case decl_params d of [n] \<Rightarrow> Inr n | _ \<Rightarrow> Inl Z3Exception)"
| "get_numeral e = Inl Z3Exception"

fun bool_value_true :: "z3_expr \<Rightarrow> bool" where
  "bool_value_true (App d xs) = (decl_kind d = OP_TRUE \<and> xs = [])"
| "bool_value_true e = False"

definition CreateLiteralExpr :: "env \<Rightarrow> visitor \<Rightarrow> z3_expr \<Rightarrow> error + (visitor \<times> c_expr)" where
  "CreateLiteralExpr E v z_expr =
     (let sort = get_sort z_expr
      in case sort of
           BoolSort \<Rightarrow>
             (let type = UnsignedIntTy E;
                  size = getIntWidth E type;
                  val = (if bool_value_true z_expr then 1 else 0) mod 2 ^ size
              in Inr (CreateIntegerLiteral v val type))
         | BvSort n \<Rightarrow>
             (case GetZ3SortSize sort of
                Inl x \<Rightarrow> Inl x
              | Inr w \<Rightarrow>
                  (case getIntTypeForBitwidth E w False of
                     None \<Rightarrow> Inl Crash
                   | Some type \<Rightarrow>
                       (let size = getIntWidth E type
                        in case get_numeral z_expr of
                             Inl x \<Rightarrow> Inl x
                           | Inr num \<Rightarrow>
                               (let val = num mod 2 ^ size
                                in if isCharType type then Inr (CreateCharacterLiteral v val type)
                                   else Inr (CreateIntegerLiteral v val type)))))
         | FpSort e s \<Rightarrow>
             (case GetZ3SortSize sort of
                Inl x \<Rightarrow> Inl x
              | Inr w \<Rightarrow>
                  (case getRealTypeForBitwidth E w of
                     None \<Rightarrow> Inl Crash
                   | Some type \<Rightarrow>
                       (let size = getTypeSize E type
                        in if size \<noteq> 16 \<and> size \<noteq> 32 \<and> size \<noteq> 64 \<and> size \<noteq> 128
                           then Inl (Fatal ''Unknown Z3 floating-point sort!'')
                           else case get_numeral z_expr of
                                  Inl x \<Rightarrow> Inl x
                                | Inr num \<Rightarrow> Inr (CreateFloatingLiteral v (num mod 2 ^ unat size) type))))
         | _ \<Rightarrow> Inl (Fatal ''Unknown Z3 sort: ''))"

definition some_node :: "error + (visitor \<times> c_expr) \<Rightarrow> error + (visitor \<times> c_expr option)" where
  "some_node r = (case r of Inl x \<Rightarrow> Inl x | Inr (v, e) \<Rightarrow> Inr (v, Some e))"

definition VisitConstant :: "env \<Rightarrow> visitor \<Rightarrow> z3_expr \<Rightarrow> error + visitor" where
  "VisitConstant E v z_const =
     (if \<not> is_const z_const then Inl (Fatal ''Z3 expression is not a constant!'')
      else case decl z_const of
             Inl x \<Rightarrow> Inl x
           | Inr d \<Rightarrow>
               (case (case decl_kind d of
                        OP_TRUE \<Rightarrow> some_node (CreateLiteralExpr E v z_const)
                      | OP_FALSE \<Rightarrow> some_node (CreateLiteralExpr E v z_const)
                      | OP_ANUM \<Rightarrow> some_node (CreateLiteralExpr E v z_const)
                      | OP_BNUM \<Rightarrow> some_node (CreateLiteralExpr E v z_const)
                      | OP_INTERNAL \<Rightarrow> Inr (v, None)
                      | OP_UNINTERPRETED \<Rightarrow>
                          (case GetCValDecl E v d of
                             Inl x \<Rightarrow> Inl x
                           | Inr c_decl \<Rightarrow> some_node (Inr (CreateDeclRefExpr v c_decl)))
                      | _ \<Rightarrow> Inl (Fatal ''Unknown Z3 constant!'')) of
                  Inl x \<Rightarrow> Inl x
                | Inr (v1, c_expr) \<Rightarrow> InsertCExpr E v1 z_const c_expr))"

text \<open>The switch over the declaration kind in \<open>VisitUnaryApp\<close>; \<open>c_sub\<close> is not null here.\<close>

definition UnaryApp_switch :: "env \<Rightarrow> visitor \<Rightarrow> z3_expr \<Rightarrow> func_decl \<Rightarrow> c_expr \<Rightarrow> error + (visitor \<times> c_expr)" where
  "UnaryApp_switch E v z_op z_func c_sub =
     (let t_sub = getType c_sub
      in case decl_kind z_func of
           OP_NOT \<Rightarrow> CreateNotExpr v (Some c_sub)
         | OP_EXTRACT \<Rightarrow>
             (if \<not> isIntegerType t_sub then Inl (Fatal ''Extract operand is not an integer'')
              else case GetZ3SortSize (get_sort z_op) of
                     Inl x \<Rightarrow> Inl x
                   | Inr s_size \<Rightarrow>
                       (case getIntTypeForBitwidth E s_size (isSignedIntegerType t_sub) of
                          None \<Rightarrow> Inl Crash
                        | Some t_op \<Rightarrow> CreateCStyleCastExpr v t_op CK_IntegralCast (Some c_sub)))
         | OP_UNINTERPRETED \<Rightarrow>
             (let z_func_name = decl_name z_func
              in if z_func_name = ''AddrOf''
                 then CreateUnaryOperator v UO_AddrOf (Some c_sub) (PointerTy t_sub)
                 else if z_func_name = ''Deref''
                 then (case getPointeeType t_sub of
                         None \<Rightarrow> Inl (Fatal ''Deref operand type is not a pointer'')
                       | Some t_op \<Rightarrow> CreateUnaryOperator v UO_Deref (Some c_sub) t_op)
                 else if z_func_name = ''Paren''
                 then CreateParenExpr v (Some c_sub)
                 else if z_func_name = ''PtrDecay''
                 then (case getArrayDecayedType t_sub of
                         None \<Rightarrow> Inl (Fatal ''PtrDecay operand type is not an array'')
                       | Some t_op \<Rightarrow> CreateImplicitCastExpr v t_op CK_ArrayToPointerDecay (Some c_sub))
                 else if z_func_name = ''PtrToInt''
                 then (case GetZ3SortSize (get_sort z_op) of
                         Inl x \<Rightarrow> Inl x
                       | Inr s_size \<Rightarrow>
                           (case getIntTypeForBitwidth E s_size False of
                              None \<Rightarrow> Inl Crash
                            | Some t_op \<Rightarrow> CreateCStyleCastExpr v t_op CK_PointerToIntegral (Some c_sub)))
                 else Inl (Fatal ''Unknown Z3 uninterpreted function''))
         | _ \<Rightarrow> Inl (Fatal ''Unknown Z3 unary operator!''))"

definition VisitUnaryApp :: "env \<Rightarrow> visitor \<Rightarrow> z3_expr \<Rightarrow> error + visitor" where
  "VisitUnaryApp E v z_op =
     (case decl z_op of
        Inl x \<Rightarrow> Inl (Fatal ''Z3 expression is not a unary operator!'')
      | Inr z_func \<Rightarrow>
          (if arity z_func \<noteq> 1 then Inl (Fatal ''Z3 expression is not a unary operator!'')
           else case arg z_op 0 of
                  Inl x \<Rightarrow> Inl x
                | Inr a0 \<Rightarrow>
                    (case GetCExpr E v a0 of
                       Inl x \<Rightarrow> Inl x
                     | Inr None \<Rightarrow> Inl Crash
                     | Inr (Some c_sub) \<Rightarrow>
                         (case UnaryApp_switch E v z_op z_func c_sub of
                            Inl x \<Rightarrow> Inl x
                          | Inr (v1, c_op) \<Rightarrow> InsertCExpr E v1 z_op (Some c_op)))))"

text \<open>
  The loop of the conjunction and disjunction cases: \<open>c_op\<close> starts as the first operand and
  takes one more binary node for each further argument of the term, in order.
\<close>

fun logical_loop :: "env \<Rightarrow> visitor \<Rightarrow> binop \<Rightarrow> c_expr option \<Rightarrow> z3_expr list \<Rightarrow> error + (visitor \<times> c_expr option)" where
  "logical_loop E v opc c_op [] = Inr (v, c_op)"
| "logical_loop E v opc c_op (x # xs) =
     (case GetCExpr E v x of
        Inl e \<Rightarrow> Inl e
      | Inr rhs \<Rightarrow>
          (case CreateBinaryOperator v opc c_op rhs BoolTy of
             Inl e \<Rightarrow> Inl e
           | Inr (v1, n) \<Rightarrow> logical_loop E v1 opc (Some n) xs))"

fun GetIntResultType :: "env \<Rightarrow> c_expr option \<Rightarrow> c_expr option \<Rightarrow> error + c_type" where
  "GetIntResultType E (Some lhs) (Some rhs) =
     (let lht = getType lhs; rht = getType rhs; order = getIntegerTypeOrder E lht rht
      in Inr (if order < 0 then rht else lht))"
| "GetIntResultType E lhs rhs = Inl Crash"

text \<open>The switch over the declaration kind in \<open>VisitBinaryApp\<close>.\<close>

definition BinaryApp_switch :: "env \<Rightarrow> visitor \<Rightarrow> z3_expr \<Rightarrow> func_decl \<Rightarrow> c_expr option \<Rightarrow> c_expr option \<Rightarrow> error + (visitor \<times> c_expr option)" where
  "BinaryApp_switch E v z_op z_func lhs rhs =
     (case decl_kind z_func of
        OP_EQ \<Rightarrow> some_node (CreateBinaryOperator v BO_EQ lhs rhs BoolTy)
      | OP_AND \<Rightarrow> logical_loop E v BO_LAnd lhs (drop 1 (args_of z_op))
      | OP_OR \<Rightarrow> logical_loop E v BO_LOr lhs (drop 1 (args_of z_op))
      | OP_BADD \<Rightarrow>
          (case GetIntResultType E lhs rhs of
             Inl x \<Rightarrow> Inl x
           | Inr t \<Rightarrow> some_node (CreateBinaryOperator v BO_Add lhs rhs t))
      | OP_BSREM \<Rightarrow>
          (case GetIntResultType E lhs rhs of
             Inl x \<Rightarrow> Inl x
           | Inr t \<Rightarrow> some_node (CreateBinaryOperator v BO_Rem lhs rhs t))
      | OP_BSREM_I \<Rightarrow>
          (case GetIntResultType E lhs rhs of
             Inl x \<Rightarrow> Inl x
           | Inr t \<Rightarrow> some_node (CreateBinaryOperator v BO_Rem lhs rhs t))
      | OP_UNINTERPRETED \<Rightarrow>
          (let name = decl_name z_func
           in if name = ''ArraySub''
              then (case lhs of
                      None \<Rightarrow> Inl Crash
                    | Some l \<Rightarrow>
                        (case getPointeeType (getType l) of
                           None \<Rightarrow> Inl (Fatal ''Operand is not a clang::PointerType'')
                         | Some t \<Rightarrow> some_node (CreateArraySubscriptExpr v lhs rhs t)))
              else if name = ''Member''
              then (case arg z_op 1 of
                      Inl x \<Rightarrow> Inl x
                    | Inr a1 \<Rightarrow>
                        (case decl a1 of
                           Inl x \<Rightarrow> Inl x
                         | Inr d1 \<Rightarrow>
                             (case GetCValDecl E v d1 of
                                Inl x \<Rightarrow> Inl x
                              | Inr mem \<Rightarrow> some_node (CreateMemberExpr v lhs mem (decl_type mem) False))))
              else if name = ''IntToPtr''
              then (case lhs of
                      Some (IntegerLiteral a val t) \<Rightarrow>
                        (let t_dst = getFromOpaquePtr E (getLimitedValue val)
                         in some_node (CreateCStyleCastExpr v t_dst CK_IntegralToPointer rhs))
                    | _ \<Rightarrow> Inl Crash)
              else Inl (Fatal ''Unknown Z3 uninterpreted function''))
      | _ \<Rightarrow> Inl (Fatal ''Unknown Z3 binary operator!''))"

definition VisitBinaryApp :: "env \<Rightarrow> visitor \<Rightarrow> z3_expr \<Rightarrow> error + visitor" where
  "VisitBinaryApp E v z_op =
     (case decl z_op of
        Inl x \<Rightarrow> Inl (Fatal ''Z3 expression is not a binary operator!'')
      | Inr z_func \<Rightarrow>
          (if arity z_func \<noteq> 2 then Inl (Fatal ''Z3 expression is not a binary operator!'')
           else case arg z_op 0 of
                  Inl x \<Rightarrow> Inl x
                | Inr a0 \<Rightarrow>
                    (case GetCExpr E v a0 of
                       Inl x \<Rightarrow> Inl x
                     | Inr lhs \<Rightarrow>
                         (case arg z_op 1 of
                            Inl x \<Rightarrow> Inl x
                          | Inr a1 \<Rightarrow>
                              (case GetCExpr E v a1 of
                                 Inl x \<Rightarrow> Inl x
                               | Inr rhs \<Rightarrow>
                                   (case BinaryApp_switch E v z_op z_func lhs rhs of
                                      Inl x \<Rightarrow> Inl x
                                    | Inr (v1, c_op) \<Rightarrow> InsertCExpr E v1 z_op c_op))))))"

text \<open>
  \<open>VisitZ3Expr\<close> first asks for the expression of every argument, then dispatches on the
  arity of the function symbol.
\<close>

fun GetOrCreateCExpr :: "env \<Rightarrow> visitor \<Rightarrow> z3_expr \<Rightarrow> error + (visitor \<times> c_expr option)"
  and VisitZ3Expr :: "env \<Rightarrow> visitor \<Rightarrow> z3_expr \<Rightarrow> error + visitor"
  and VisitZ3Expr_args :: "env \<Rightarrow> visitor \<Rightarrow> z3_expr list \<Rightarrow> error + visitor"
where
  "GetOrCreateCExpr E v z_expr =
     (case (if c_expr_map v (hash E z_expr) = None then VisitZ3Expr E v z_expr else Inr v) of
        Inl x \<Rightarrow> Inl x
      | Inr v1 \<Rightarrow>
          (case GetCExpr E v1 z_expr of
             Inl x \<Rightarrow> Inl x
           | Inr c \<Rightarrow> Inr (v1, c)))"

| "VisitZ3Expr E v (App d xs) =
     (case VisitZ3Expr_args E v xs of
        Inl x \<Rightarrow> Inl x
      | Inr v1 \<Rightarrow>
          (if arity d = 0 then VisitConstant E v1 (App d xs)
           else if arity d = 1 then VisitUnaryApp E v1 (App d xs)
           else if arity d = 2 then VisitBinaryApp E v1 (App d xs)
           else Inl (Fatal ''Unexpected Z3 operation!'')))"
| "VisitZ3Expr E v (Quantifier b) = Inl (Fatal ''Unexpected Z3 quantifier!'')"
| "VisitZ3Expr E v (Var i s) = Inl (Fatal ''Unexpected Z3 variable!'')"

| "VisitZ3Expr_args E v [] = Inr v"
| "VisitZ3Expr_args E v (x # xs) =
     (case GetOrCreateCExpr E v x of
        Inl e \<Rightarrow> Inl e
      | Inr (v1, c) \<Rightarrow> VisitZ3Expr_args E v1 xs)"

section \<open>The round trip\<close>

text \<open>
  \<open>expression(term(E))\<close>: the term of an expression node is asked for, and then the
  expression of that term, in the registry the first request has left.
\<close>

definition round_trip :: "env \<Rightarrow> visitor \<Rightarrow> c_expr \<Rightarrow> error + (visitor \<times> c_expr option)" where
  "round_trip E v e =
     (case GetOrCreateZ3Expr E v e of
        Inl x \<Rightarrow> Inl x
      | Inr (v1, t) \<Rightarrow> GetOrCreateCExpr E v1 t)"

section \<open>A concrete pair of contexts\<close>

text \<open>
  One instance of the two contexts, for running the translator on concrete inputs: a target
  with 8-bit characters, 16- to 128-bit integers and 64-bit pointers, a simplifier that
  rewrites a binary \<open>distinct\<close> into a negated equation, a structural hash, and function-symbol
  ids computed from the symbol. The storage of a destroyed string is taken to be cleared: a
  read through a stale \<open>c_str()\<close> pointer finds no character. \<open>freed_storage_holds\<close> puts any
  other content there.
\<close>

fun lp64_getTypeSize :: "c_type \<Rightarrow> 64 word" where
  "lp64_getTypeSize BoolTy = 8"
| "lp64_getTypeSize (CharTy s) = 8"
| "lp64_getTypeSize (IntTy s w) = of_nat w"
| "lp64_getTypeSize (FloatTy w) = of_nat w"
| "lp64_getTypeSize (PointerTy t) = 64"
| "lp64_getTypeSize (ArrayTy t n) = of_nat n * lp64_getTypeSize t"
| "lp64_getTypeSize (StructTy n) = 0"

fun lp64_getIntWidth :: "c_type \<Rightarrow> nat" where
  "lp64_getIntWidth BoolTy = 1"
| "lp64_getIntWidth (CharTy s) = 8"
| "lp64_getIntWidth (IntTy s w) = w"
| "lp64_getIntWidth t = 0"

definition lp64_getIntTypeForBitwidth :: "nat \<Rightarrow> bool \<Rightarrow> c_type option" where
  "lp64_getIntTypeForBitwidth w s =
     (if w = 8 then Some (CharTy s)
      else if w = 16 \<or> w = 32 \<or> w = 64 \<or> w = 128 then Some (IntTy s w)
      else None)"

definition lp64_getRealTypeForBitwidth :: "nat \<Rightarrow> c_type option" where
  "lp64_getRealTypeForBitwidth w = (if w = 32 \<or> w = 64 \<or> w = 128 then Some (FloatTy w) else None)"

definition lp64_getIntegerTypeOrder :: "c_type \<Rightarrow> c_type \<Rightarrow> int" where
  "lp64_getIntegerTypeOrder l r =
     (let rank = (\<lambda>t. 2 * lp64_getIntWidth t + (if isSignedIntegerType t then 0 else 1))
      in if rank l < rank r then - 1 else if rank l = rank r then 0 else 1)"

fun lp64_simplify :: "z3_expr \<Rightarrow> z3_expr" where
  "lp64_simplify (App d [a, b]) =
     (if decl_kind d = OP_DISTINCT
      then App (FuncDecl OP_NOT ''not'' [] [BoolSort] BoolSort)
             [App (FuncDecl OP_EQ ''='' [] [get_sort a, get_sort b] BoolSort) [a, b]]
      else App d [a, b])"
| "lp64_simplify e = e"

definition string_code :: "string \<Rightarrow> nat" where
  "string_code s = foldr (\<lambda>c h. Suc (of_char c) + 257 * h) s 0"

definition decl_code :: "func_decl \<Rightarrow> nat" where
  "decl_code d = string_code (decl_name d) + sum_list (decl_params d) + length (decl_domain d)"

fun term_hash :: "z3_expr \<Rightarrow> nat"
  and terms_hash :: "z3_expr list \<Rightarrow> nat"
where
  "term_hash (App d xs) = decl_code d + 3 * terms_hash xs"
| "term_hash (Var i s) = i"
| "term_hash (Quantifier b) = Suc (term_hash b)"
| "terms_hash [] = 0"
| "terms_hash (x # xs) = Suc (term_hash x) + 5 * terms_hash xs"

definition lp64 :: env where
  "lp64 = \<lparr>getTypeSize = lp64_getTypeSize,
           getIntWidth = lp64_getIntWidth,
           getIntTypeForBitwidth = lp64_getIntTypeForBitwidth,
           getRealTypeForBitwidth = lp64_getRealTypeForBitwidth,
           getIntegerTypeOrder = lp64_getIntegerTypeOrder,
           UnsignedIntTy = IntTy False 32,
           getAsOpaquePtr = (\<lambda>t. 4096),
           getFromOpaquePtr = (\<lambda>p. PointerTy (CharTy True)),
           simplify = lp64_simplify,
           hash = term_hash,
           get_func_decl_id = decl_code,
           c_str_after_free = (\<lambda>s. [])\<rparr>"

definition freed_storage_holds :: "string \<Rightarrow> env \<Rightarrow> env" where
  "freed_storage_holds chars E = E\<lparr>c_str_after_free := (\<lambda>s. chars)\<rparr>"

text \<open>The same contexts with a hash that only counts the arguments of a term.\<close>

definition lp64_weak_hash :: env where
  "lp64_weak_hash = lp64\<lparr>hash := num_args\<rparr>"

section \<open>Sample declarations and terms\<close>

text \<open>
  Two 32-bit signed variables \<open>x\<close> and \<open>y\<close> at the addresses \<open>0x10\<close> and \<open>0x20\<close> and a
  boolean variable \<open>b\<close> at \<open>0x30\<close>, a reference to each, the symbols the translator makes
  for them, the literal 5, the registry after the reference to \<open>x\<close> has been translated
  forward from an empty registry (\<open>forward_x\<close>), and after its term has then been translated
  back (\<open>registry_x\<close>, with the new reference \<open>node_x\<close>).
\<close>

definition var_x :: c_decl where
  "var_x = VarDecl (NamedDecl 16 ''x'') (IntTy True 32)"

definition var_y :: c_decl where
  "var_y = VarDecl (NamedDecl 32 ''y'') (IntTy True 32)"

definition ref_x :: c_expr where
  "ref_x = DeclRefExpr 1 var_x (IntTy True 32)"

definition ref_y :: c_expr where
  "ref_y = DeclRefExpr 2 var_y (IntTy True 32)"

definition sym_x :: func_decl where
  "sym_x = FuncDecl OP_UNINTERPRETED ''0x10_x'' [] [] (BvSort 32)"

definition sym_y :: func_decl where
  "sym_y = FuncDecl OP_UNINTERPRETED ''0x20_y'' [] [] (BvSort 32)"

definition var_b :: c_decl where
  "var_b = VarDecl (NamedDecl 48 ''b'') BoolTy"

definition ref_b :: c_expr where
  "ref_b = DeclRefExpr 3 var_b BoolTy"

definition sym_b :: func_decl where
  "sym_b = FuncDecl OP_UNINTERPRETED ''0x30_b'' [] [] BoolSort"

definition lit_5 :: c_expr where
  "lit_5 = IntegerLiteral 5 5 (IntTy True 32)"

definition forward_x :: visitor where
  "forward_x =
     \<lparr>z3_expr_map = [1 \<mapsto> 0], z3_expr_vec = [App sym_x []],
      z3_decl_map = [16 \<mapsto> 0], z3_decl_vec = [sym_x],
      c_expr_map = Map.empty,
      c_decl_map = [get_func_decl_id lp64 sym_x \<mapsto> var_x], ast_next = 100\<rparr>"

definition node_x :: c_expr where
  "node_x = DeclRefExpr 100 var_x (IntTy True 32)"

definition registry_x :: visitor where
  "registry_x = forward_x\<lparr>c_expr_map := [hash lp64 (App sym_x []) \<mapsto> Some node_x], ast_next := 101\<rparr>"

definition forward_b :: visitor where
  "forward_b =
     \<lparr>z3_expr_map = [3 \<mapsto> 0], z3_expr_vec = [App sym_b []],
      z3_decl_map = [48 \<mapsto> 0], z3_decl_vec = [sym_b],
      c_expr_map = Map.empty,
      c_decl_map = [get_func_decl_id lp64 sym_b \<mapsto> var_b], ast_next = 100\<rparr>"

text \<open>The conjunction of \<open>b\<close>, true and false as one ternary application.\<close>

definition and_b_true_false :: z3_expr where
  "and_b_true_false =
     App (FuncDecl OP_AND ''and'' [] [BoolSort, BoolSort] BoolSort)
       [App sym_b [], bool_val True, bool_val False]"

text \<open>
  Two fields \<open>f\<close> at \<open>0x40\<close> and \<open>g\<close> at \<open>0x48\<close> of a record \<open>S\<close> at \<open>0x50\<close>, a variable
  \<open>s\<close> of that record type at \<open>0x60\<close>, and the comparison \<open>s.f == s.g\<close>.
\<close>

definition field_f :: c_decl where
  "field_f = FieldDecl (NamedDecl 64 ''f'') (IntTy True 32) (NamedDecl 80 ''S'')"

definition field_g :: c_decl where
  "field_g = FieldDecl (NamedDecl 72 ''g'') (IntTy True 32) (NamedDecl 80 ''S'')"

definition var_s :: c_decl where
  "var_s = VarDecl (NamedDecl 96 ''s'') (StructTy ''S'')"

definition eq_s_f_s_g :: c_expr where
  "eq_s_f_s_g =
     BinaryOperator 10 BO_EQ
       (MemberExpr 11 (DeclRefExpr 12 var_s (StructTy ''S'')) field_f False (IntTy True 32))
       (MemberExpr 13 (DeclRefExpr 14 var_s (StructTy ''S'')) field_g False (IntTy True 32))
       BoolTy"



text \<open>The sum \<open>x + x\<close> whose two operands are one and the same reference node.\<close>

definition add_x_x :: c_expr where
  "add_x_x = BinaryOperator 9 BO_Add ref_x ref_x (IntTy True 32)"

text \<open>The cast \<open>(unsigned char)1\<close> of the 32-bit literal 1.\<close>

definition cast_uchar_1 :: c_expr where
  "cast_uchar_1 = CStyleCastExpr 4 CK_IntegralCast (IntegerLiteral 5 1 (IntTy True 32)) (CharTy False)"

section \<open>Relations between registries\<close>

text \<open>
  \<open>extends E v v'\<close>: every lookup that succeeds in the registry \<open>v\<close> succeeds in \<open>v'\<close> with the
  same result, in each of the four tables. \<open>allocates v v'\<close>: \<open>v'\<close> is \<open>v\<close> but for the next free
  address of the AST context.
\<close>

definition extends :: "env \<Rightarrow> visitor \<Rightarrow> visitor \<Rightarrow> bool" where
  "extends E v v' \<longleftrightarrow>
     (\<forall>k x. GetZ3Expr v k = Inr x \<longrightarrow> GetZ3Expr v' k = Inr x)
   \<and> (\<forall>d f. GetZ3Decl v d = Inr f \<longrightarrow> GetZ3Decl v' d = Inr f)
   \<and> (\<forall>t c. GetCExpr E v t = Inr c \<longrightarrow> GetCExpr E v' t = Inr c)
   \<and> (\<forall>f d. GetCValDecl E v f = Inr d \<longrightarrow> GetCValDecl E v' f = Inr d)"

definition allocates :: "visitor \<Rightarrow> visitor \<Rightarrow> bool" where
  "allocates v v' \<longleftrightarrow> (\<exists>k. v' = v\<lparr>ast_next := k\<rparr>)"

section \<open>Properties of the registry\<close>

lemma InsertZ3Expr_keeps:
  assumes "InsertZ3Expr v c z = Inr v'" and "GetZ3Expr v k = Inr t"
  shows "GetZ3Expr v' k = Inr t"
  using assms
  by (auto simp: InsertZ3Expr_def GetZ3Expr_def nth_append split: if_splits option.splits)

lemma InsertZ3Decl_keeps:
  assumes "InsertZ3Decl v c z = Inr v'" and "GetZ3Decl v k = Inr t"
  shows "GetZ3Decl v' k = Inr t"
  using assms
  by (auto simp: InsertZ3Decl_def GetZ3Decl_def nth_append split: if_splits option.splits)

lemma InsertCExpr_keeps:
  assumes "InsertCExpr E v z c = Inr v'" and "GetCExpr E v k = Inr t"
  shows "GetCExpr E v' k = Inr t"
  using assms
  by (auto simp: InsertCExpr_def GetCExpr_def Let_def split: if_splits option.splits)

lemma InsertCValDecl_keeps:
  assumes "InsertCValDecl E v z c = Inr v'" and "GetCValDecl E v k = Inr t"
  shows "GetCValDecl E v' k = Inr t"
  using assms
  by (auto simp: InsertCValDecl_def GetCValDecl_def Let_def split: if_splits option.splits)

lemma is_fatal_simps [simp]:
  "is_fatal (Inl (Fatal m)) = True"
  "is_fatal (Inl Z3Exception) = False"
  "is_fatal (Inl Crash) = False"
  "is_fatal (Inr x) = False"
  by (simp_all add: is_fatal_def)

text \<open>
  Claim C3. In each of the four directions of the registry, an insertion is fatal exactly when
  the key already has an entry, a lookup is fatal exactly when the key has none, and an
  insertion that succeeds leaves every earlier lookup as it was: no entry is overwritten.
\<close>

theorem registry_single_insertion:
  "(is_fatal (InsertZ3Expr v e z) \<longleftrightarrow> z3_expr_map v (expr_addr e) \<noteq> None)
 \<and> (is_fatal (GetZ3Expr v e) \<longleftrightarrow> z3_expr_map v (expr_addr e) = None)
 \<and> (InsertZ3Expr v e z = Inr v1 \<and> GetZ3Expr v e' = Inr z' \<longrightarrow> GetZ3Expr v1 e' = Inr z')
 \<and> (is_fatal (InsertZ3Decl v d f) \<longleftrightarrow> z3_decl_map v (decl_addr (as_named d)) \<noteq> None)
 \<and> (is_fatal (GetZ3Decl v d) \<longleftrightarrow> z3_decl_map v (decl_addr (as_named d)) = None)
 \<and> (InsertZ3Decl v d f = Inr v2 \<and> GetZ3Decl v d' = Inr f' \<longrightarrow> GetZ3Decl v2 d' = Inr f')
 \<and> (is_fatal (InsertCExpr E v t c) \<longleftrightarrow> c_expr_map v (hash E t) \<noteq> None)
 \<and> (is_fatal (GetCExpr E v t) \<longleftrightarrow> c_expr_map v (hash E t) = None)
 \<and> (InsertCExpr E v t c = Inr v3 \<and> GetCExpr E v t' = Inr c' \<longrightarrow> GetCExpr E v3 t' = Inr c')
 \<and> (is_fatal (InsertCValDecl E v g n) \<longleftrightarrow> c_decl_map v (get_func_decl_id E g) \<noteq> None)
 \<and> (is_fatal (GetCValDecl E v g) \<longleftrightarrow> c_decl_map v (get_func_decl_id E g) = None)
 \<and> (InsertCValDecl E v g n = Inr v4 \<and> GetCValDecl E v g' = Inr n' \<longrightarrow> GetCValDecl E v4 g' = Inr n')"
proof -
  have a: "is_fatal (InsertZ3Expr v e z) \<longleftrightarrow> z3_expr_map v (expr_addr e) \<noteq> None"
    by (simp add: InsertZ3Expr_def)
  have b: "is_fatal (GetZ3Expr v e) \<longleftrightarrow> z3_expr_map v (expr_addr e) = None"
    by (simp add: GetZ3Expr_def split: option.split)
  have c: "is_fatal (InsertZ3Decl v d f) \<longleftrightarrow> z3_decl_map v (decl_addr (as_named d)) \<noteq> None"
    by (simp add: InsertZ3Decl_def)
  have d: "is_fatal (GetZ3Decl v d) \<longleftrightarrow> z3_decl_map v (decl_addr (as_named d)) = None"
    by (simp add: GetZ3Decl_def split: option.split)
  have e: "is_fatal (InsertCExpr E v t c) \<longleftrightarrow> c_expr_map v (hash E t) \<noteq> None"
    by (simp add: InsertCExpr_def Let_def)
  have f: "is_fatal (GetCExpr E v t) \<longleftrightarrow> c_expr_map v (hash E t) = None"
    by (simp add: GetCExpr_def split: option.split)
  have g: "is_fatal (InsertCValDecl E v g n) \<longleftrightarrow> c_decl_map v (get_func_decl_id E g) \<noteq> None"
    by (simp add: InsertCValDecl_def Let_def)
  have h: "is_fatal (GetCValDecl E v g) \<longleftrightarrow> c_decl_map v (get_func_decl_id E g) = None"
    by (simp add: GetCValDecl_def split: option.split)
  have k1: "InsertZ3Expr v e z = Inr v1 \<and> GetZ3Expr v e' = Inr z' \<longrightarrow> GetZ3Expr v1 e' = Inr z'"
    using InsertZ3Expr_keeps by blast
  have k2: "InsertZ3Decl v d f = Inr v2 \<and> GetZ3Decl v d' = Inr f' \<longrightarrow> GetZ3Decl v2 d' = Inr f'"
    using InsertZ3Decl_keeps by blast
  have k3: "InsertCExpr E v t c = Inr v3 \<and> GetCExpr E v t' = Inr c' \<longrightarrow> GetCExpr E v3 t' = Inr c'"
    using InsertCExpr_keeps by blast
  have k4: "InsertCValDecl E v g n = Inr v4 \<and> GetCValDecl E v g' = Inr n' \<longrightarrow> GetCValDecl E v4 g' = Inr n'"
    using InsertCValDecl_keeps by blast
  show ?thesis
    by (intro conjI a b k1 c d k2 e f k3 g h k4)
qed


lemma sample_codes:
  "string_code ''0x10_x'' \<noteq> string_code ''0x20_y''"
  by (simp add: string_code_def)

theorem registry_single_insertion_witness:
  "InsertZ3Expr registry_x ref_y (App sym_y []) =
     Inr (registry_x\<lparr>z3_expr_map := [1 \<mapsto> 0, 2 \<mapsto> 1], z3_expr_vec := [App sym_x [], App sym_y []]\<rparr>)
   \<and> GetZ3Expr registry_x ref_x = Inr (App sym_x [])
   \<and> GetZ3Expr (registry_x\<lparr>z3_expr_map := [1 \<mapsto> 0, 2 \<mapsto> 1], z3_expr_vec := [App sym_x [], App sym_y []]\<rparr>) ref_x
       = Inr (App sym_x [])
   \<and> InsertZ3Decl registry_x var_y sym_y =
     Inr (registry_x\<lparr>z3_decl_map := [16 \<mapsto> 0, 32 \<mapsto> 1], z3_decl_vec := [sym_x, sym_y]\<rparr>)
   \<and> GetZ3Decl registry_x var_x = Inr sym_x
   \<and> GetZ3Decl (registry_x\<lparr>z3_decl_map := [16 \<mapsto> 0, 32 \<mapsto> 1], z3_decl_vec := [sym_x, sym_y]\<rparr>) var_x = Inr sym_x
   \<and> InsertCExpr lp64 registry_x (App sym_y []) (Some ref_y) =
     Inr (registry_x\<lparr>c_expr_map := (c_expr_map registry_x)(hash lp64 (App sym_y []) \<mapsto> Some ref_y)\<rparr>)
   \<and> GetCExpr lp64 registry_x (App sym_x []) = Inr (Some node_x)
   \<and> GetCExpr lp64 (registry_x\<lparr>c_expr_map := (c_expr_map registry_x)(hash lp64 (App sym_y []) \<mapsto> Some ref_y)\<rparr>)
         (App sym_x []) = Inr (Some node_x)
   \<and> InsertCValDecl lp64 registry_x sym_y var_y =
     Inr (registry_x\<lparr>c_decl_map := (c_decl_map registry_x)(get_func_decl_id lp64 sym_y \<mapsto> var_y)\<rparr>)
   \<and> GetCValDecl lp64 registry_x sym_x = Inr var_x
   \<and> GetCValDecl lp64 (registry_x\<lparr>c_decl_map := (c_decl_map registry_x)(get_func_decl_id lp64 sym_y \<mapsto> var_y)\<rparr>)
         sym_x = Inr var_x"
proof -
  have i1: "InsertZ3Expr registry_x ref_y (App sym_y []) =
     Inr (registry_x\<lparr>z3_expr_map := [1 \<mapsto> 0, 2 \<mapsto> 1], z3_expr_vec := [App sym_x [], App sym_y []]\<rparr>)"
    by (simp add: InsertZ3Expr_def registry_x_def forward_x_def ref_y_def)
  have g1: "GetZ3Expr registry_x ref_x = Inr (App sym_x [])"
    by (simp add: GetZ3Expr_def registry_x_def forward_x_def ref_x_def)
  have i2: "InsertZ3Decl registry_x var_y sym_y =
     Inr (registry_x\<lparr>z3_decl_map := [16 \<mapsto> 0, 32 \<mapsto> 1], z3_decl_vec := [sym_x, sym_y]\<rparr>)"
    by (simp add: InsertZ3Decl_def registry_x_def forward_x_def var_y_def)
  have g2: "GetZ3Decl registry_x var_x = Inr sym_x"
    by (simp add: GetZ3Decl_def registry_x_def forward_x_def var_x_def)
  have ne: "hash lp64 (App sym_y []) \<noteq> hash lp64 (App sym_x [])"
    using sample_codes by (simp add: lp64_def decl_code_def sym_x_def sym_y_def)
  have i3: "InsertCExpr lp64 registry_x (App sym_y []) (Some ref_y) =
     Inr (registry_x\<lparr>c_expr_map := (c_expr_map registry_x)(hash lp64 (App sym_y []) \<mapsto> Some ref_y)\<rparr>)"
    using ne by (simp add: InsertCExpr_def registry_x_def forward_x_def Let_def)
  have g3: "GetCExpr lp64 registry_x (App sym_x []) = Inr (Some node_x)"
    by (simp add: GetCExpr_def registry_x_def forward_x_def)
  have ne': "get_func_decl_id lp64 sym_y \<noteq> get_func_decl_id lp64 sym_x"
    using sample_codes by (simp add: lp64_def decl_code_def sym_x_def sym_y_def)
  have i4: "InsertCValDecl lp64 registry_x sym_y var_y =
     Inr (registry_x\<lparr>c_decl_map := (c_decl_map registry_x)(get_func_decl_id lp64 sym_y \<mapsto> var_y)\<rparr>)"
    using ne' by (simp add: InsertCValDecl_def registry_x_def forward_x_def Let_def)
  have g4: "GetCValDecl lp64 registry_x sym_x = Inr var_x"
    by (simp add: GetCValDecl_def registry_x_def forward_x_def)
  note r = registry_single_insertion [where v = registry_x and E = lp64
      and e = ref_y and z = "App sym_y []" and e' = ref_x and z' = "App sym_x []"
      and d = var_y and f = sym_y and d' = var_x and f' = sym_x
      and t = "App sym_y []" and c = "Some ref_y" and t' = "App sym_x []" and c' = "Some node_x"
      and g = sym_y and n = var_y and g' = sym_x and n' = var_x]
  show ?thesis
    using r i1 g1 i2 g2 i3 g3 i4 g4 by simp
qed


subsection \<open>The hash as key\<close>

text \<open>
  Claim C9. The term-to-expression direction sees a term only through its hash: two terms of
  equal hash have the same lookup, and once one of them is inserted the lookup of the other
  returns the expression of the first and its insertion is the fatal double insertion,
  whether or not the terms are equal.
\<close>

theorem term_registry_keyed_by_hash:
  assumes "hash E t1 = hash E t2"
  shows "GetCExpr E v t1 = GetCExpr E v t2
       \<and> (InsertCExpr E v t1 c1 = Inr v' \<longrightarrow>
            GetCExpr E v' t2 = Inr c1
          \<and> InsertCExpr E v' t2 c2 = Inl (Fatal ''Check failed: iter == c_expr_map.end()''))"
  using assms by (auto simp: GetCExpr_def InsertCExpr_def Let_def split: if_splits)

theorem term_registry_keyed_by_hash_witness:
  "App sym_x [] \<noteq> App sym_y []
   \<and> hash lp64_weak_hash (App sym_x []) = hash lp64_weak_hash (App sym_y [])
   \<and> InsertCExpr lp64_weak_hash (Z3ConvVisitor 100) (App sym_x []) None
       = Inr ((Z3ConvVisitor 100)\<lparr>c_expr_map := [0 \<mapsto> None]\<rparr>)
   \<and> GetCExpr lp64_weak_hash ((Z3ConvVisitor 100)\<lparr>c_expr_map := [0 \<mapsto> None]\<rparr>) (App sym_y []) = Inr None
   \<and> InsertCExpr lp64_weak_hash ((Z3ConvVisitor 100)\<lparr>c_expr_map := [0 \<mapsto> None]\<rparr>) (App sym_y []) None
       = Inl (Fatal ''Check failed: iter == c_expr_map.end()'')"
proof -
  have h: "hash lp64_weak_hash (App sym_x []) = hash lp64_weak_hash (App sym_y [])"
    by (simp add: lp64_weak_hash_def)
  have i: "InsertCExpr lp64_weak_hash (Z3ConvVisitor 100) (App sym_x []) None
       = Inr ((Z3ConvVisitor 100)\<lparr>c_expr_map := [0 \<mapsto> None]\<rparr>)"
    by (simp add: InsertCExpr_def lp64_weak_hash_def Z3ConvVisitor_def)
  have d: "App sym_x [] \<noteq> App sym_y []"
    by (simp add: sym_x_def sym_y_def)
  show ?thesis
    using term_registry_keyed_by_hash [OF h, of "Z3ConvVisitor 100" None _ None] h i d
    by simp
qed

section \<open>The boolean cast\<close>

lemma mk_distinct_bool: "mk_distinct a b = Inr c \<Longrightarrow> is_bool c"
  by (auto simp: mk_distinct_def is_bool_def split: if_splits)

lemma lp64_simplify_bool: "is_bool e \<Longrightarrow> is_bool (lp64_simplify e)"
  by (induction e rule: lp64_simplify.induct) (auto simp: is_bool_def)

text \<open>
  Claim C4. The boolean cast returns a boolean term as it is. For a simplifier that keeps
  boolean terms boolean, the cast of a result of the cast is that result; and on a term of a
  sort with numerals the cast has a result, the simplified comparison of the term with zero.
\<close>

theorem Z3BoolCast_identity_idempotent:
  assumes "\<And>e. is_bool e \<Longrightarrow> is_bool (simplify E e)"
  shows "(is_bool t \<longrightarrow> Z3BoolCast E t = Inr t)
       \<and> (Z3BoolCast E t = Inr r \<longrightarrow> Z3BoolCast E r = Inr r)
       \<and> (\<not> is_bool t \<and> num_val 0 (get_sort t) = Inr zero \<longrightarrow>
            (\<exists>cmp. mk_distinct t zero = Inr cmp
                 \<and> Z3BoolCast E t = Inr (simplify E cmp)
                 \<and> Z3BoolCast E (simplify E cmp) = Inr (simplify E cmp)))"
proof (intro conjI impI)
  assume "is_bool t"
  then show "Z3BoolCast E t = Inr t" by (simp add: Z3BoolCast_def)
next
  assume a: "Z3BoolCast E t = Inr r"
  have "is_bool r"
  proof (cases "is_bool t")
    case True
    with a show ?thesis by (simp add: Z3BoolCast_def)
  next
    case False
    with a obtain zero cmp where "mk_distinct t zero = Inr cmp" and "r = simplify E cmp"
      by (auto simp: Z3BoolCast_def split: sum.splits)
    then show ?thesis using assms mk_distinct_bool by blast
  qed
  then show "Z3BoolCast E r = Inr r" by (simp add: Z3BoolCast_def)
next
  assume a: "\<not> is_bool t \<and> num_val 0 (get_sort t) = Inr zero"
  have s: "get_sort zero = get_sort t"
    using a by (cases "get_sort t") (auto split: if_splits)
  define cmp where "cmp = App (FuncDecl OP_DISTINCT ''distinct'' [] [get_sort t, get_sort zero] BoolSort) [t, zero]"
  have m: "mk_distinct t zero = Inr cmp"
    using s by (simp add: mk_distinct_def cmp_def)
  have "is_bool (simplify E cmp)"
    using assms mk_distinct_bool [OF m] by blast
  then have "Z3BoolCast E (simplify E cmp) = Inr (simplify E cmp)"
    by (simp add: Z3BoolCast_def)
  moreover have "Z3BoolCast E t = Inr (simplify E cmp)"
    using a m by (simp add: Z3BoolCast_def)
  ultimately show "\<exists>cmp. mk_distinct t zero = Inr cmp
                 \<and> Z3BoolCast E t = Inr (simplify E cmp)
                 \<and> Z3BoolCast E (simplify E cmp) = Inr (simplify E cmp)"
    using m by blast
qed

theorem Z3BoolCast_identity_idempotent_witness:
  "is_bool (bool_val True) \<and> Z3BoolCast lp64 (bool_val True) = Inr (bool_val True)
   \<and> \<not> is_bool (App sym_x [])
   \<and> num_val 0 (get_sort (App sym_x [])) = Inr (bv_val 0 32)
   \<and> Z3BoolCast lp64 (App sym_x []) =
       Inr (App (FuncDecl OP_NOT ''not'' [] [BoolSort] BoolSort)
              [App (FuncDecl OP_EQ ''='' [] [BvSort 32, BvSort 32] BoolSort) [App sym_x [], bv_val 0 32]])
   \<and> Z3BoolCast lp64
        (App (FuncDecl OP_NOT ''not'' [] [BoolSort] BoolSort)
              [App (FuncDecl OP_EQ ''='' [] [BvSort 32, BvSort 32] BoolSort) [App sym_x [], bv_val 0 32]])
      = Inr (App (FuncDecl OP_NOT ''not'' [] [BoolSort] BoolSort)
              [App (FuncDecl OP_EQ ''='' [] [BvSort 32, BvSort 32] BoolSort) [App sym_x [], bv_val 0 32]])"
proof -
  have p: "\<And>e. is_bool e \<Longrightarrow> is_bool (simplify lp64 e)"
    using lp64_simplify_bool by (simp add: lp64_def)
  have b: "is_bool (bool_val True)"
    by (simp add: is_bool_def bool_val_def)
  have n: "\<not> is_bool (App sym_x [])"
    by (simp add: is_bool_def sym_x_def)
  have z: "num_val 0 (get_sort (App sym_x [])) = Inr (bv_val 0 32)"
    by (simp add: sym_x_def bv_val_def)
  have c: "Z3BoolCast lp64 (App sym_x []) =
       Inr (App (FuncDecl OP_NOT ''not'' [] [BoolSort] BoolSort)
              [App (FuncDecl OP_EQ ''='' [] [BvSort 32, BvSort 32] BoolSort) [App sym_x [], bv_val 0 32]])"
    by (simp add: Z3BoolCast_def is_bool_def sym_x_def bv_val_def mk_distinct_def lp64_def)
  show ?thesis
    using Z3BoolCast_identity_idempotent [of lp64 "bool_val True", OF p]
          Z3BoolCast_identity_idempotent [of lp64 "App sym_x []" _ "bv_val 0 32", OF p] b n z c
    by simp
qed

section \<open>Running the translator\<close>

text \<open>The translator on the sample inputs, evaluated by rewriting with the definitions.\<close>

lemmas run_simps =
  Z3ConvVisitor_def InsertZ3Expr_def GetZ3Expr_def InsertZ3Decl_def GetZ3Decl_def
  InsertCExpr_def GetCExpr_def InsertCValDecl_def GetCValDecl_def GetOrCreateZ3Decl_def
  CreateZ3DeclName_def pointer_str_def hex_of_nat.simps hex_digit_def GetZ3Sort_def mk_bv_sort_def
  z3_constant_def apply_decl_def lp64_def decl_code_def string_code_def Let_def

lemma forward_x: "GetOrCreateZ3Expr lp64 (Z3ConvVisitor 100) ref_x = Inr (forward_x, App sym_x [])"
  by (simp add: run_simps ref_x_def var_x_def forward_x_def sym_x_def)

lemma forward_x_decl:
  "GetOrCreateZ3Decl lp64 (Z3ConvVisitor 100) var_x
     = Inr (forward_x\<lparr>z3_expr_map := Map.empty, z3_expr_vec := []\<rparr>, sym_x)"
  by (simp add: run_simps ref_x_def var_x_def forward_x_def sym_x_def)

lemmas rev_simps =
  VisitConstant_def is_const_def some_node_def CreateDeclRefExpr_def new_node_def arity_def
  CreateLiteralExpr_def CreateIntegerLiteral_def CreateCharacterLiteral_def
  lp64_getIntTypeForBitwidth_def bool_val_def

lemma reverse_x: "GetOrCreateCExpr lp64 forward_x (App sym_x []) = Inr (registry_x, Some node_x)"
  by (simp add: run_simps rev_simps forward_x_def sym_x_def registry_x_def node_x_def var_x_def)

lemma forward_b: "GetOrCreateZ3Expr lp64 (Z3ConvVisitor 100) ref_b = Inr (forward_b, App sym_b [])"
  by (simp add: run_simps ref_b_def var_b_def sym_b_def forward_b_def)

lemma GetZ3Expr_Inr: "GetZ3Expr v e = Inr z \<Longrightarrow> z3_expr_map v (expr_addr e) \<noteq> None"
  by (auto simp: GetZ3Expr_def split: option.splits)

lemma GetZ3Decl_Inr: "GetZ3Decl v d = Inr f \<Longrightarrow> z3_decl_map v (decl_addr (as_named d)) \<noteq> None"
  by (auto simp: GetZ3Decl_def split: option.splits)

lemma GetCExpr_Inr: "GetCExpr E v t = Inr c \<Longrightarrow> c_expr_map v (hash E t) \<noteq> None"
  by (auto simp: GetCExpr_def split: option.splits)

section \<open>The bitwise cast\<close>

text \<open>
  For widths below \<open>2 ^ 31\<close> the helper extends by the difference of the widths when the
  destination is wider, extracts the bits \<open>dst\<close> down to 1 when it is narrower, and returns
  its operand when the widths are equal. The result always has the destination's width; an
  extension keeps the value of an unsigned operand and repeats the sign bit of a signed one.
  The extraction, however, starts at bit 1 and not at bit 0.
\<close>

lemma sint_of_nat_diff:
  assumes "s < 2 ^ 31" and "d < 2 ^ 31"
  shows "sint ((of_nat d :: 64 word) - of_nat s) = int d - int s"
proof -
  have "(of_nat d :: 64 word) - of_nat s = word_of_int (int d - int s)"
    by simp
  then have "sint ((of_nat d :: 64 word) - of_nat s) = signed_take_bit 63 (int d - int s)"
    by (simp only: sint_sbintrunc') simp
  also have "\<dots> = int d - int s"
  proof (rule signed_take_bit_int_eq_self)
    show "- (2 ^ 63) \<le> int d - int s"
      using assms by simp
    show "int d - int s < 2 ^ 63"
      using assms by simp
  qed
  finally show ?thesis .
qed

lemma size_diff:
  fixes src dst :: "64 word"
  assumes "unat src < 2 ^ 31" and "unat dst < 2 ^ 31"
  shows "sint (dst - src) = int (unat dst) - int (unat src)"
  using sint_of_nat_diff [OF assms] by simp


lemma unsigned_size:
  fixes dst :: "64 word"
  assumes "unat dst < 2 ^ 31"
  shows "unat (ucast dst :: 32 word) = unat dst"
  using assms by (simp add: unsigned_ucast_eq take_bit_nat_eq_self)

lemma unsigned_diff:
  fixes src dst :: "64 word"
  assumes "unat src < unat dst" and "unat dst < 2 ^ 31"
  shows "unat (ucast (dst - src) :: 32 word) = unat dst - unat src"
proof -
  have "unat (dst - src) = unat dst - unat src"
    using assms by (simp add: unat_sub word_le_nat_alt)
  moreover have "unat (dst - src) < 2 ^ 31"
    using assms calculation by simp
  ultimately show ?thesis
    using unsigned_size [of "dst - src"] by simp
qed

lemma CreateZ3BitwiseCast_extend_eq:
  assumes "is_bv expr" and "unat src < unat dst" and "unat dst < 2 ^ 31"
  shows "CreateZ3BitwiseCast expr src dst sign =
           (if sign then sext expr (unat dst - unat src) else zext expr (unat dst - unat src))"
proof -
  have "unat src < 2 ^ 31" using assms by simp
  then have "sint (dst - src) = int (unat dst) - int (unat src)"
    using assms size_diff [of src dst] by blast
  moreover have "int (unat src) < int (unat dst)"
    using assms by (simp only: of_nat_less_iff)
  ultimately have "0 < sint (dst - src)"
    by linarith
  then show ?thesis
    using assms by (simp add: CreateZ3BitwiseCast_def Let_def unsigned_diff)
qed

lemma CreateZ3BitwiseCast_truncate_eq:
  assumes "is_bv expr" and "unat dst < unat src" and "unat src < 2 ^ 31"
  shows "CreateZ3BitwiseCast expr src dst sign = z3_extract expr (unat dst) 1"
proof -
  have d: "unat dst < 2 ^ 31" using assms by simp
  then have "sint (dst - src) = int (unat dst) - int (unat src)"
    using assms size_diff [of src dst] by blast
  moreover have "int (unat dst) < int (unat src)"
    using assms by (simp only: of_nat_less_iff)
  ultimately have "sint (dst - src) < 0"
    by linarith
  then have "\<not> 0 < sint (dst - src)" and "sint (dst - src) < 0"
    by simp_all
  then show ?thesis
    using assms by (simp add: CreateZ3BitwiseCast_def Let_def unsigned_size [OF d])
qed

lemma CreateZ3BitwiseCast_same_width:
  assumes "is_bv expr"
  shows "CreateZ3BitwiseCast expr w w sign = Inr expr"
  using assms by (simp add: CreateZ3BitwiseCast_def)

lemma CreateZ3BitwiseCast_width:
  assumes "get_sort expr = BvSort (unat src)"
      and "unat src < 2 ^ 31" and "unat dst < 2 ^ 31" and "0 < unat dst"
  shows "\<exists>t. CreateZ3BitwiseCast expr src dst sign = Inr t \<and> get_sort t = BvSort (unat dst)"
proof -
  have b: "is_bv expr" using assms(1) by (simp add: is_bv_def)
  consider "unat src < unat dst" | "unat dst < unat src" | "unat src = unat dst"
    by linarith
  then show ?thesis
  proof cases
    case 1
    then show ?thesis
      using assms b by (simp add: CreateZ3BitwiseCast_extend_eq sext_def zext_def)
  next
    case 2
    then show ?thesis
      using assms b by (simp add: CreateZ3BitwiseCast_truncate_eq z3_extract_def)
  next
    case 3
    then have "src = dst" by (simp add: word_unat_eq_iff)
    then show ?thesis
      using assms b by (simp add: CreateZ3BitwiseCast_same_width)
  qed
qed

lemma CreateZ3BitwiseCast_extends:
  assumes "get_sort expr = BvSort (unat src)" and "bv_value expr = Some x"
      and "unat src < unat dst" and "unat dst < 2 ^ 31"
  shows "\<exists>t. CreateZ3BitwiseCast expr src dst sign = Inr t
           \<and> bv_value t = Some (if sign \<and> unat src \<noteq> 0 \<and> odd (x div 2 ^ (unat src - 1))
                                 then x + (2 ^ (unat dst - unat src) - 1) * 2 ^ unat src else x)"
proof -
  have b: "is_bv expr" using assms(1) by (simp add: is_bv_def)
  show ?thesis
    using assms b by (simp add: CreateZ3BitwiseCast_extend_eq sext_def zext_def Let_def)
qed

lemma CreateZ3BitwiseCast_truncates_from_bit_1:
  assumes "get_sort expr = BvSort (unat src)" and "bv_value expr = Some x"
      and "unat dst < unat src" and "unat src < 2 ^ 31" and "0 < unat dst"
  shows "\<exists>t. CreateZ3BitwiseCast expr src dst sign = Inr t
           \<and> bv_value t = Some ((x div 2) mod 2 ^ unat dst)"
proof -
  have b: "is_bv expr" using assms(1) by (simp add: is_bv_def)
  show ?thesis
    using assms b by (simp add: CreateZ3BitwiseCast_truncate_eq z3_extract_def)
qed


text \<open>
  Claim C2, at an input where the code departs from it: the conversion of the 32-bit numeral 1
  to width 8. The result is the extraction of the bits 8 down to 1; it has width 8, but its
  value is 0, while the low eight bits of the operand are 1. The same term is entered for the
  cast \<open>(unsigned char)1\<close>.
\<close>

theorem CreateZ3BitwiseCast_truncation_drops_bit_0:
  "CreateZ3BitwiseCast (bv_val 1 32) 32 8 False = z3_extract (bv_val 1 32) 8 1
   \<and> map_sum id get_sort (CreateZ3BitwiseCast (bv_val 1 32) 32 8 False) = Inr (BvSort 8)
   \<and> map_sum id bv_value (CreateZ3BitwiseCast (bv_val 1 32) 32 8 False) = Inr (Some 0)
   \<and> bv_value (bv_val 1 32) = Some 1
   \<and> (1::nat) mod 2 ^ 8 = 1
   \<and> map_sum id (bv_value \<circ> snd) (GetOrCreateZ3Expr lp64 (Z3ConvVisitor 100) cast_uchar_1) = Inr (Some 0)"
  by (simp add: CreateZ3BitwiseCast_def z3_extract_def bv_val_def is_bv_def cast_uchar_1_def
        run_simps to_int_def getLimitedValue_def CStyleCast_switch_def)


section \<open>Casts need a bit-vector operand\<close>

text \<open>
  Claim C10. A C-style cast that is not yet in the registry and whose operand has a term that
  is not of a bit-vector sort is a fatal error, for every cast kind and every pair of widths:
  the check of the bitwise-cast helper runs before the switch over the cast kind.
\<close>

theorem cast_requires_bitvector_operand:
  assumes "z3_expr_map v a = None"
      and "GetOrCreateZ3Expr E v c_sub = Inr (v1, z_sub)"
      and "\<not> is_bv z_sub"
  shows "VisitCStyleCastExpr E v (CStyleCastExpr a kind c_sub t_dst)
           = Inl (Fatal ''z3::expr is not a bitvector!'')
       \<and> GetOrCreateZ3Expr E v (CStyleCastExpr a kind c_sub t_dst)
           = Inl (Fatal ''z3::expr is not a bitvector!'')"
  using assms by (simp add: CreateZ3BitwiseCast_def Let_def)


theorem cast_requires_bitvector_operand_witness:
  "z3_expr_map (Z3ConvVisitor 100) 4 = None
   \<and> map_sum id snd (GetOrCreateZ3Expr lp64 (Z3ConvVisitor 100) ref_b) = Inr (App sym_b [])
   \<and> \<not> is_bv (App sym_b [])
   \<and> VisitCStyleCastExpr lp64 (Z3ConvVisitor 100) (CStyleCastExpr 4 CK_IntegralCast ref_b BoolTy)
        = Inl (Fatal ''z3::expr is not a bitvector!'')
   \<and> GetOrCreateZ3Expr lp64 (Z3ConvVisitor 100) (CStyleCastExpr 4 CK_IntegralCast ref_b BoolTy)
        = Inl (Fatal ''z3::expr is not a bitvector!'')"
proof -
  have e: "z3_expr_map (Z3ConvVisitor 100) 4 = None"
    by (simp add: Z3ConvVisitor_def)
  have n: "\<not> is_bv (App sym_b [])"
    by (simp add: is_bv_def sym_b_def)
  show ?thesis
    using cast_requires_bitvector_operand [OF e forward_b n, of CK_IntegralCast BoolTy] e n forward_b
    by simp
qed
section \<open>Memoization\<close>

text \<open>
  A get-or-create call never removes or changes an entry: the registry it returns extends the
  one it was given. This is shown along the whole recursive traversal, in both directions.
\<close>

lemma extends_refl [simp]: "extends E v v"
  by (simp add: extends_def)

lemma extends_trans: "extends E v v1 \<Longrightarrow> extends E v1 v2 \<Longrightarrow> extends E v v2"
  by (simp add: extends_def)

lemma InsertZ3Expr_extends: "InsertZ3Expr v e z = Inr v' \<Longrightarrow> extends E v v'"
  unfolding extends_def
  by (auto simp: InsertZ3Expr_def GetZ3Expr_def GetZ3Decl_def GetCExpr_def GetCValDecl_def nth_append
           split: if_splits option.splits)

lemma InsertZ3Decl_extends: "InsertZ3Decl v d f = Inr v' \<Longrightarrow> extends E v v'"
  unfolding extends_def
  by (auto simp: InsertZ3Decl_def GetZ3Expr_def GetZ3Decl_def GetCExpr_def GetCValDecl_def nth_append
           split: if_splits option.splits)

lemma InsertCExpr_extends: "InsertCExpr E v t c = Inr v' \<Longrightarrow> extends E v v'"
  unfolding extends_def
  by (auto simp: InsertCExpr_def GetZ3Expr_def GetZ3Decl_def GetCExpr_def GetCValDecl_def Let_def
           split: if_splits option.splits)

lemma InsertCValDecl_extends: "InsertCValDecl E v f d = Inr v' \<Longrightarrow> extends E v v'"
  unfolding extends_def
  by (auto simp: InsertCValDecl_def GetZ3Expr_def GetZ3Decl_def GetCExpr_def GetCValDecl_def Let_def
           split: if_splits option.splits)

lemma TraverseDecl_extends: "TraverseDecl E v d = Inr v' \<Longrightarrow> extends E v v'"
  by (cases d) (auto simp: VisitFunctionDecl_def Let_def split: if_splits sum.splits intro: InsertZ3Decl_extends)

lemma GetOrCreateZ3Decl_extends: "GetOrCreateZ3Decl E v d = Inr (v', f) \<Longrightarrow> extends E v v'"
  by (auto simp: GetOrCreateZ3Decl_def split: if_splits sum.splits
           intro: TraverseDecl_extends InsertCValDecl_extends extends_trans)

lemma GetOrCreateZ3Expr_cases:
  assumes "GetOrCreateZ3Expr E v e = Inr (v', z)"
  shows "GetZ3Expr v' e = Inr z"
    and "z3_expr_map v (expr_addr e) \<noteq> None \<Longrightarrow> v' = v"
    and "z3_expr_map v (expr_addr e) = None \<Longrightarrow> TraverseStmt E v e = Inr v'"
  using assms by (auto split: sum.splits if_splits)

lemma Traverse_UnaryOperator:
  assumes "TraverseStmt E v (UnaryOperator a opc s ty) = Inr v'" and "z3_expr_map v a = None"
  shows "\<exists>v1 operand z. GetOrCreateZ3Expr E v s = Inr (v1, operand)
           \<and> UnaryOperator_switch E opc ty operand = Inr z
           \<and> InsertZ3Expr v1 (UnaryOperator a opc s ty) z = Inr v'"
  using assms by (auto simp del: GetOrCreateZ3Expr.simps split: sum.splits)

lemma Traverse_BinaryOperator:
  assumes "TraverseStmt E v (BinaryOperator a opc l r ty) = Inr v'" and "z3_expr_map v a = None"
  shows "\<exists>v1 lhs v2 rhs z. GetOrCreateZ3Expr E v l = Inr (v1, lhs)
           \<and> GetOrCreateZ3Expr E v1 r = Inr (v2, rhs)
           \<and> BinaryOperator_switch E opc (getType l) lhs rhs = Inr z
           \<and> InsertZ3Expr v2 (BinaryOperator a opc l r ty) z = Inr v'"
  using assms by (auto simp del: GetOrCreateZ3Expr.simps split: sum.splits)

lemma Traverse_CStyleCastExpr:
  assumes "TraverseStmt E v (CStyleCastExpr a k s ty) = Inr v'" and "z3_expr_map v a = None"
  shows "\<exists>v1 z_sub z_cast z. GetOrCreateZ3Expr E v s = Inr (v1, z_sub)
           \<and> CreateZ3BitwiseCast z_sub (getTypeSize E (getType s)) (getTypeSize E ty)
                (isSignedIntegerType (getType s)) = Inr z_cast
           \<and> CStyleCast_switch E k ty z_sub z_cast = Inr z
           \<and> InsertZ3Expr v1 (CStyleCastExpr a k s ty) z = Inr v'"
  using assms by (auto simp: Let_def simp del: GetOrCreateZ3Expr.simps split: sum.splits)

lemma Traverse_ImplicitCastExpr:
  assumes "TraverseStmt E v (ImplicitCastExpr a k s ty) = Inr v'" and "z3_expr_map v a = None"
  shows "\<exists>v1 z_sub z. GetOrCreateZ3Expr E v s = Inr (v1, z_sub)
           \<and> ImplicitCast_switch E k ty z_sub = Inr z
           \<and> InsertZ3Expr v1 (ImplicitCastExpr a k s ty) z = Inr v'"
  using assms by (auto simp del: GetOrCreateZ3Expr.simps split: sum.splits)

lemma Traverse_ArraySubscriptExpr:
  assumes "TraverseStmt E v (ArraySubscriptExpr a b i ty) = Inr v'" and "z3_expr_map v a = None"
  shows "\<exists>v1 z_base v2 z_idx elm_sort.
             GetOrCreateZ3Expr E v b = Inr (v1, z_base) \<and> sort_is_bv (get_sort z_base)
           \<and> GetOrCreateZ3Expr E v1 i = Inr (v2, z_idx) \<and> sort_is_bv (get_sort z_idx)
           \<and> GetZ3Sort E ty = Inr elm_sort
           \<and> InsertZ3Expr v2 (ArraySubscriptExpr a b i ty)
                (App (function2 ''ArraySub'' (get_sort z_base) (get_sort z_idx) elm_sort) [z_base, z_idx])
               = Inr v'"
  using assms
  by (auto simp: apply_decl_def function2_def simp del: GetOrCreateZ3Expr.simps split: sum.splits if_splits)

lemma Traverse_MemberExpr:
  assumes "TraverseStmt E v (MemberExpr a b d arrow ty) = Inr v'" and "z3_expr_map v a = None"
  shows "\<exists>v1 f v2 z_base z.
             GetOrCreateZ3Decl E v d = Inr (v1, f) \<and> arity f = 0
           \<and> GetOrCreateZ3Expr E v1 b = Inr (v2, z_base)
           \<and> InsertZ3Expr v2 (MemberExpr a b d arrow ty)
                (App (function2 ''Member'' (get_sort z_base) (decl_range f) (decl_range f)) [z_base, App f []])
               = Inr v'"
  using assms
  by (auto simp: apply_decl_def function2_def arity_def simp del: GetOrCreateZ3Expr.simps
           split: sum.splits if_splits)

lemma Traverse_ParenExpr:
  assumes "TraverseStmt E v (ParenExpr a s ty) = Inr v'" and "z3_expr_map v a = None"
  shows "\<exists>v1 z_sub z. GetOrCreateZ3Expr E v s = Inr (v1, z_sub)
           \<and> Paren_switch z_sub = Inr z
           \<and> InsertZ3Expr v1 (ParenExpr a s ty) z = Inr v'"
  using assms by (auto simp del: GetOrCreateZ3Expr.simps split: sum.splits)

lemma Traverse_DeclRefExpr:
  assumes "TraverseStmt E v (DeclRefExpr a d ty) = Inr v'" and "z3_expr_map v a = None"
  shows "\<exists>v1 f. GetOrCreateZ3Decl E v d = Inr (v1, f) \<and> arity f = 0
           \<and> InsertZ3Expr v1 (DeclRefExpr a d ty) (App f []) = Inr v'"
  using assms by (auto simp: apply_decl_def arity_def split: sum.splits if_splits)

lemma GetOrCreateZ3Expr_extends:
  "GetOrCreateZ3Expr E v e = Inr (v', z) \<Longrightarrow> extends E v v'"
proof (induction e arbitrary: v v' z)
  case (IntegerLiteral a val ty)
  then show ?case
    by (auto simp: Let_def split: sum.splits if_splits intro: InsertZ3Expr_extends)
next
  case (CharacterLiteral a val ty)
  then show ?case
    by (auto simp: Let_def split: sum.splits if_splits intro: InsertZ3Expr_extends)
next
  case (FloatingLiteral a val ty)
  then show ?case
    by (auto simp: Let_def split: sum.splits if_splits)
next
  case (DeclRefExpr a d ty)
  show ?case
  proof (cases "z3_expr_map v a")
    case (Some i)
    then show ?thesis using GetOrCreateZ3Expr_cases(2) [OF DeclRefExpr.prems] by simp
  next
    case None
    then have "TraverseStmt E v (DeclRefExpr a d ty) = Inr v'"
      using GetOrCreateZ3Expr_cases(3) [OF DeclRefExpr.prems] by simp
    from Traverse_DeclRefExpr [OF this None] show ?thesis
      using GetOrCreateZ3Decl_extends InsertZ3Expr_extends extends_trans by blast
  qed
next
  case (UnaryOperator a opc s ty)
  show ?case
  proof (cases "z3_expr_map v a")
    case (Some i)
    then show ?thesis using GetOrCreateZ3Expr_cases(2) [OF UnaryOperator.prems] by simp
  next
    case None
    then have "TraverseStmt E v (UnaryOperator a opc s ty) = Inr v'"
      using GetOrCreateZ3Expr_cases(3) [OF UnaryOperator.prems] by simp
    from Traverse_UnaryOperator [OF this None] show ?thesis
      using UnaryOperator.IH InsertZ3Expr_extends extends_trans by blast
  qed
next
  case (BinaryOperator a opc l r ty)
  show ?case
  proof (cases "z3_expr_map v a")
    case (Some i)
    then show ?thesis using GetOrCreateZ3Expr_cases(2) [OF BinaryOperator.prems] by simp
  next
    case None
    then have "TraverseStmt E v (BinaryOperator a opc l r ty) = Inr v'"
      using GetOrCreateZ3Expr_cases(3) [OF BinaryOperator.prems] by simp
    from Traverse_BinaryOperator [OF this None] obtain v1 lhs v2 rhs zz
      where g: "GetOrCreateZ3Expr E v l = Inr (v1, lhs)" and h: "GetOrCreateZ3Expr E v1 r = Inr (v2, rhs)"
        and i: "InsertZ3Expr v2 (BinaryOperator a opc l r ty) zz = Inr v'"
      by blast
    show ?thesis
      by (rule extends_trans [OF extends_trans [OF BinaryOperator.IH(1) [OF g] BinaryOperator.IH(2) [OF h]]
                InsertZ3Expr_extends [OF i]])
  qed
next
  case (CStyleCastExpr a k s ty)
  show ?case
  proof (cases "z3_expr_map v a")
    case (Some i)
    then show ?thesis using GetOrCreateZ3Expr_cases(2) [OF CStyleCastExpr.prems] by simp
  next
    case None
    then have "TraverseStmt E v (CStyleCastExpr a k s ty) = Inr v'"
      using GetOrCreateZ3Expr_cases(3) [OF CStyleCastExpr.prems] by simp
    from Traverse_CStyleCastExpr [OF this None] show ?thesis
      using CStyleCastExpr.IH InsertZ3Expr_extends extends_trans by blast
  qed
next
  case (ImplicitCastExpr a k s ty)
  show ?case
  proof (cases "z3_expr_map v a")
    case (Some i)
    then show ?thesis using GetOrCreateZ3Expr_cases(2) [OF ImplicitCastExpr.prems] by simp
  next
    case None
    then have "TraverseStmt E v (ImplicitCastExpr a k s ty) = Inr v'"
      using GetOrCreateZ3Expr_cases(3) [OF ImplicitCastExpr.prems] by simp
    from Traverse_ImplicitCastExpr [OF this None] show ?thesis
      using ImplicitCastExpr.IH InsertZ3Expr_extends extends_trans by blast
  qed
next
  case (ArraySubscriptExpr a b i ty)
  show ?case
  proof (cases "z3_expr_map v a")
    case (Some j)
    then show ?thesis using GetOrCreateZ3Expr_cases(2) [OF ArraySubscriptExpr.prems] by simp
  next
    case None
    then have "TraverseStmt E v (ArraySubscriptExpr a b i ty) = Inr v'"
      using GetOrCreateZ3Expr_cases(3) [OF ArraySubscriptExpr.prems] by simp
    from Traverse_ArraySubscriptExpr [OF this None] obtain v1 lhs v2 rhs zz
      where g: "GetOrCreateZ3Expr E v b = Inr (v1, lhs)" and h: "GetOrCreateZ3Expr E v1 i = Inr (v2, rhs)"
        and k: "InsertZ3Expr v2 (ArraySubscriptExpr a b i ty) zz = Inr v'"
      by auto
    show ?thesis
      by (rule extends_trans [OF extends_trans [OF ArraySubscriptExpr.IH(1) [OF g] ArraySubscriptExpr.IH(2) [OF h]]
                InsertZ3Expr_extends [OF k]])
  qed
next
  case (MemberExpr a b d arrow ty)
  show ?case
  proof (cases "z3_expr_map v a")
    case (Some j)
    then show ?thesis using GetOrCreateZ3Expr_cases(2) [OF MemberExpr.prems] by simp
  next
    case None
    then have "TraverseStmt E v (MemberExpr a b d arrow ty) = Inr v'"
      using GetOrCreateZ3Expr_cases(3) [OF MemberExpr.prems] by simp
    from Traverse_MemberExpr [OF this None] obtain v1 f v2 zb zz
      where g: "GetOrCreateZ3Decl E v d = Inr (v1, f)" and h: "GetOrCreateZ3Expr E v1 b = Inr (v2, zb)"
        and k: "InsertZ3Expr v2 (MemberExpr a b d arrow ty) zz = Inr v'"
      by auto
    show ?thesis
      by (rule extends_trans [OF extends_trans [OF GetOrCreateZ3Decl_extends [OF g] MemberExpr.IH [OF h]]
                InsertZ3Expr_extends [OF k]])
  qed
next
  case (ParenExpr a s ty)
  show ?case
  proof (cases "z3_expr_map v a")
    case (Some i)
    then show ?thesis using GetOrCreateZ3Expr_cases(2) [OF ParenExpr.prems] by simp
  next
    case None
    then have "TraverseStmt E v (ParenExpr a s ty) = Inr v'"
      using GetOrCreateZ3Expr_cases(3) [OF ParenExpr.prems] by simp
    from Traverse_ParenExpr [OF this None] show ?thesis
      using ParenExpr.IH InsertZ3Expr_extends extends_trans by blast
  qed
next
  case (CallExpr a ty)
  then show ?case by (auto split: sum.splits if_splits)
next
  case (OtherExpr a ty)
  then show ?case by (auto split: sum.splits if_splits)
qed

lemma extends_ast_next [simp]: "extends E v (v\<lparr>ast_next := k\<rparr>)"
  by (auto simp: extends_def GetZ3Expr_def GetZ3Decl_def GetCExpr_def GetCValDecl_def split: option.splits)

lemma allocates_refl [simp]: "allocates v v"
  by (auto simp: allocates_def intro: exI [of _ "ast_next v"])

lemma allocates_Suc [simp]: "allocates v (v\<lparr>ast_next := k\<rparr>)"
  by (auto simp: allocates_def)

lemma allocates_trans: "allocates v v1 \<Longrightarrow> allocates v1 v2 \<Longrightarrow> allocates v v2"
  by (auto simp: allocates_def)

lemma allocates_extends: "allocates v v' \<Longrightarrow> extends E v v'"
  by (auto simp: allocates_def)

lemma CreateLiteralExpr_allocates: "CreateLiteralExpr E v z = Inr (v', c) \<Longrightarrow> allocates v v'"
  by (auto simp: CreateLiteralExpr_def CreateIntegerLiteral_def CreateCharacterLiteral_def
                 CreateFloatingLiteral_def new_node_def Let_def
           split: z3_sort.splits sum.splits option.splits if_splits)

lemma Create_allocates:
  "CreateUnaryOperator v uo c t = Inr (v', n) \<Longrightarrow> allocates v v'"
  "CreateNotExpr v c = Inr (v', n) \<Longrightarrow> allocates v v'"
  "CreateBinaryOperator v bo l r t = Inr (v', n) \<Longrightarrow> allocates v v'"
  "CreateCStyleCastExpr v t k c = Inr (v', n) \<Longrightarrow> allocates v v'"
  "CreateImplicitCastExpr v t k c = Inr (v', n) \<Longrightarrow> allocates v v'"
  "CreateParenExpr v c = Inr (v', n) \<Longrightarrow> allocates v v'"
  "CreateArraySubscriptExpr v l r t = Inr (v', n) \<Longrightarrow> allocates v v'"
  "CreateMemberExpr v c m t ar = Inr (v', n) \<Longrightarrow> allocates v v'"
  by (cases c; cases l; cases r; auto simp: new_node_def)+

lemma UnaryApp_switch_allocates: "UnaryApp_switch E v z d c = Inr (v', n) \<Longrightarrow> allocates v v'"
  by (auto simp: UnaryApp_switch_def new_node_def Let_def
           split: decl_kind.splits sum.splits option.splits if_splits)

lemma logical_loop_allocates: "logical_loop E v opc c xs = Inr (v', n) \<Longrightarrow> allocates v v'"
proof (induction xs arbitrary: v c)
  case Nil
  then show ?case by simp
next
  case (Cons x xs)
  then obtain rhs v1 m where g: "GetCExpr E v x = Inr rhs"
    and b: "CreateBinaryOperator v opc c rhs BoolTy = Inr (v1, m)"
    and l: "logical_loop E v1 opc (Some m) xs = Inr (v', n)"
    by (auto split: sum.splits)
  show ?case
    using Cons.IH [OF l] Create_allocates(3) [OF b] allocates_trans by blast
qed

lemma BinaryApp_switch_allocates: "BinaryApp_switch E v z d l r = Inr (v', n) \<Longrightarrow> allocates v v'"
  by (cases "decl_kind d")
     (auto simp: BinaryApp_switch_def some_node_def Let_def new_node_def
           split: sum.splits option.splits if_splits c_expr.splits prod.splits
           dest: logical_loop_allocates Create_allocates)

lemma insert_after_allocation:
  assumes "allocates v v1" and "InsertCExpr E v1 z c = Inr v'"
  shows "extends E v v'"
  using assms extends_trans allocates_extends InsertCExpr_extends by blast

lemma insert_after_node:
  assumes "InsertCExpr E (v\<lparr>ast_next := k\<rparr>) z c = Inr v'"
  shows "extends E v v'"
  using insert_after_allocation [OF allocates_Suc assms] .

lemma Visit_app_extends:
  "VisitConstant E v z = Inr v' \<Longrightarrow> extends E v v'"
  "VisitUnaryApp E v z = Inr v' \<Longrightarrow> extends E v v'"
  "VisitBinaryApp E v z = Inr v' \<Longrightarrow> extends E v v'"
proof -
  show "VisitConstant E v z = Inr v' \<Longrightarrow> extends E v v'"
    by (auto simp: VisitConstant_def some_node_def CreateDeclRefExpr_def new_node_def
           split: if_splits sum.splits decl_kind.splits
           dest: CreateLiteralExpr_allocates
           intro: insert_after_allocation InsertCExpr_extends insert_after_node)
  show "VisitUnaryApp E v z = Inr v' \<Longrightarrow> extends E v v'"
    by (auto simp: VisitUnaryApp_def
           split: if_splits sum.splits option.splits
           dest: UnaryApp_switch_allocates
           intro: insert_after_allocation)
  show "VisitBinaryApp E v z = Inr v' \<Longrightarrow> extends E v v'"
    by (auto simp: VisitBinaryApp_def
           split: if_splits sum.splits option.splits
           dest: BinaryApp_switch_allocates
           intro: insert_after_allocation)
qed

lemma reverse_extends:
  "(\<forall>v' c. GetOrCreateCExpr E v z = Inr (v', c) \<longrightarrow> extends E v v')"
  "(\<forall>v'. VisitZ3Expr E v z = Inr v' \<longrightarrow> extends E v v')"
  "(\<forall>v'. VisitZ3Expr_args E v zs = Inr v' \<longrightarrow> extends E v v')"
proof (induction E v z and E v z and E v zs rule: GetOrCreateCExpr_VisitZ3Expr_VisitZ3Expr_args.induct)
  case (1 E v z_expr)
  then show ?case
    by (auto split: sum.splits if_splits)
next
  case (2 E v d xs)
  show ?case
  proof (intro allI impI)
    fix v'
    assume a: "VisitZ3Expr E v (App d xs) = Inr v'"
    then obtain v1 where b: "VisitZ3Expr_args E v xs = Inr v1"
      and c: "VisitConstant E v1 (App d xs) = Inr v' \<or> VisitUnaryApp E v1 (App d xs) = Inr v'
              \<or> VisitBinaryApp E v1 (App d xs) = Inr v'"
      by (auto split: sum.splits if_splits)
    have "extends E v v1" using 2 b by simp
    moreover have "extends E v1 v'" using c Visit_app_extends by blast
    ultimately show "extends E v v'" by (rule extends_trans)
  qed
next
  case (3 E v b)
  then show ?case by simp
next
  case (4 E v i s)
  then show ?case by simp
next
  case (5 E v)
  then show ?case by simp
next
  case (6 E v x xs)
  show ?case
  proof (intro allI impI)
    fix v'
    assume a: "VisitZ3Expr_args E v (x # xs) = Inr v'"
    then obtain v1 c where b: "GetOrCreateCExpr E v x = Inr (v1, c)"
      and r: "VisitZ3Expr_args E v1 xs = Inr v'"
      by (auto simp del: GetOrCreateCExpr.simps split: sum.splits)
    have "extends E v v1" using 6(1) b by simp
    moreover have "extends E v1 v'" using 6(2) [OF b refl] r by simp
    ultimately show "extends E v v'" by (rule extends_trans)
  qed
qed

lemma GetOrCreateCExpr_cases:
  assumes "GetOrCreateCExpr E v t = Inr (v', c)"
  shows "GetCExpr E v' t = Inr c"
  using assms by (auto split: sum.splits if_splits)

lemma GetOrCreateZ3Decl_registers:
  assumes "GetOrCreateZ3Decl E v d = Inr (v', f)"
  shows "GetZ3Decl v' d = Inr f"
    and "\<exists>d'. GetCValDecl E v' f = Inr d' \<and> (c_decl_map v (get_func_decl_id E f) = None \<longrightarrow> d' = d)"
proof -
  from assms obtain v1 where t: "(if z3_decl_map v (decl_addr (as_named d)) = None
            then TraverseDecl E v d else Inr v) = Inr v1"
    and g: "GetZ3Decl v1 d = Inr f"
    and i: "(if c_decl_map v1 (get_func_decl_id E f) = None
             then InsertCValDecl E v1 f d else Inr v1) = Inr v'"
    by (auto simp: GetOrCreateZ3Decl_def split: sum.splits)
  have m: "z3_decl_map v' = z3_decl_map v1" "z3_decl_vec v' = z3_decl_vec v1"
    using i by (auto simp: InsertCValDecl_def Let_def split: if_splits)
  show "GetZ3Decl v' d = Inr f"
    using g by (auto simp: GetZ3Decl_def m split: option.splits)
  have k: "c_decl_map v1 = c_decl_map v"
    using t by (cases d) (auto simp: InsertZ3Decl_def VisitFunctionDecl_def Let_def split: if_splits sum.splits)
  show "\<exists>d'. GetCValDecl E v' f = Inr d' \<and> (c_decl_map v (get_func_decl_id E f) = None \<longrightarrow> d' = d)"
    using i k by (auto simp: InsertCValDecl_def GetCValDecl_def Let_def split: if_splits)
qed

text \<open>
  Claim C5. In every registry in which the key has an entry, a get-or-create call returns that
  entry and leaves the registry as it is: nothing is translated again. A call on a key without
  entry leaves the key with the entry it returns, and the registry it returns extends the
  given one. So once a node has its term, every later request, for the node itself or for
  any ancestor, finds that term; the same holds for the expression of a term and the
  function symbol of a declaration. The fourth direction has no get-or-create operation in
  the code: the declaration of a function symbol is entered when the symbol is first
  requested for a declaration, and \<open>GetCValDecl\<close> is a pure lookup of it.
\<close>

theorem get_or_create_memoized:
  "(GetZ3Expr v e = Inr z \<longrightarrow> GetOrCreateZ3Expr E v e = Inr (v, z))
 \<and> (GetOrCreateZ3Expr E v e = Inr (va, z) \<longrightarrow> GetZ3Expr va e = Inr z \<and> extends E v va)
 \<and> (GetZ3Decl v d = Inr f \<longrightarrow>
      (\<exists>v'. GetOrCreateZ3Decl E v d = Inr (v', f)
            \<and> (c_decl_map v (get_func_decl_id E f) \<noteq> None \<longrightarrow> v' = v)))
 \<and> (GetOrCreateZ3Decl E v d = Inr (vb, f) \<longrightarrow>
      GetZ3Decl vb d = Inr f \<and> extends E v vb
    \<and> (\<exists>d'. GetCValDecl E vb f = Inr d' \<and> (c_decl_map v (get_func_decl_id E f) = None \<longrightarrow> d' = d)))
 \<and> (GetCExpr E v t = Inr c \<longrightarrow> GetOrCreateCExpr E v t = Inr (v, c))
 \<and> (GetOrCreateCExpr E v t = Inr (vc, c) \<longrightarrow> GetCExpr E vc t = Inr c \<and> extends E v vc)"
proof (intro conjI impI)
  assume a: "GetZ3Expr v e = Inr z"
  from GetZ3Expr_Inr [OF a] a show "GetOrCreateZ3Expr E v e = Inr (v, z)"
    by auto
next
  assume a: "GetOrCreateZ3Expr E v e = Inr (va, z)"
  show "GetZ3Expr va e = Inr z"
    by (rule GetOrCreateZ3Expr_cases(1) [OF a])
  show "extends E v va"
    by (rule GetOrCreateZ3Expr_extends [OF a])
next
  assume a: "GetZ3Decl v d = Inr f"
  then have n: "z3_decl_map v (decl_addr (as_named d)) \<noteq> None"
    by (rule GetZ3Decl_Inr)
  show "\<exists>v'. GetOrCreateZ3Decl E v d = Inr (v', f)
            \<and> (c_decl_map v (get_func_decl_id E f) \<noteq> None \<longrightarrow> v' = v)"
    using a n by (auto simp: GetOrCreateZ3Decl_def InsertCValDecl_def Let_def)
next
  assume a: "GetOrCreateZ3Decl E v d = Inr (vb, f)"
  show "GetZ3Decl vb d = Inr f"
    by (rule GetOrCreateZ3Decl_registers(1) [OF a])
  show "extends E v vb"
    by (rule GetOrCreateZ3Decl_extends [OF a])
  show "\<exists>d'. GetCValDecl E vb f = Inr d' \<and> (c_decl_map v (get_func_decl_id E f) = None \<longrightarrow> d' = d)"
    by (rule GetOrCreateZ3Decl_registers(2) [OF a])
next
  assume a: "GetCExpr E v t = Inr c"
  from GetCExpr_Inr [OF a] a show "GetOrCreateCExpr E v t = Inr (v, c)"
    by auto
next
  assume a: "GetOrCreateCExpr E v t = Inr (vc, c)"
  show "GetCExpr E vc t = Inr c"
    by (rule GetOrCreateCExpr_cases [OF a])
  show "extends E v vc"
    using reverse_extends(1) a by blast
qed

theorem get_or_create_memoized_witness:
  "GetOrCreateZ3Expr lp64 (Z3ConvVisitor 100) ref_x = Inr (forward_x, App sym_x [])
   \<and> GetOrCreateZ3Expr lp64 forward_x ref_x = Inr (forward_x, App sym_x [])
   \<and> (\<exists>v2 s. GetOrCreateZ3Expr lp64 forward_x add_x_x = Inr (v2, s)
         \<and> z3_expr_vec v2 = [App sym_x [], s]
         \<and> GetOrCreateZ3Expr lp64 v2 ref_x = Inr (v2, App sym_x [])
         \<and> GetOrCreateZ3Expr lp64 v2 add_x_x = Inr (v2, s))
   \<and> GetOrCreateZ3Decl lp64 (Z3ConvVisitor 100) var_x
        = Inr (forward_x\<lparr>z3_expr_map := Map.empty, z3_expr_vec := []\<rparr>, sym_x)
   \<and> GetOrCreateZ3Decl lp64 (forward_x\<lparr>z3_expr_map := Map.empty, z3_expr_vec := []\<rparr>) var_x
        = Inr (forward_x\<lparr>z3_expr_map := Map.empty, z3_expr_vec := []\<rparr>, sym_x)
   \<and> GetCValDecl lp64 (forward_x\<lparr>z3_expr_map := Map.empty, z3_expr_vec := []\<rparr>) sym_x = Inr var_x
   \<and> GetOrCreateCExpr lp64 forward_x (App sym_x []) = Inr (registry_x, Some node_x)
   \<and> GetOrCreateCExpr lp64 registry_x (App sym_x []) = Inr (registry_x, Some node_x)"
proof -
  note m = get_or_create_memoized [where E = lp64]
  let ?fd = "forward_x\<lparr>z3_expr_map := Map.empty, z3_expr_vec := []\<rparr>"
  have x: "GetZ3Expr forward_x ref_x = Inr (App sym_x [])"
    using m [THEN conjunct2, THEN conjunct1, THEN mp, OF forward_x] by (rule conjunct1)
  have a: "GetOrCreateZ3Expr lp64 forward_x ref_x = Inr (forward_x, App sym_x [])"
    using m [THEN conjunct1, THEN mp, OF x] .
  obtain v2 s where p: "GetOrCreateZ3Expr lp64 forward_x add_x_x = Inr (v2, s)"
    and q: "z3_expr_vec v2 = [App sym_x [], s]"
    by (simp add: add_x_x_def forward_x_def ref_x_def var_x_def sym_x_def run_simps
          BinaryOperator_switch_def mk_bvadd_def mk_bv_op_def is_bv_def)
  have "extends lp64 forward_x v2" and s: "GetZ3Expr v2 add_x_x = Inr s"
    using m [THEN conjunct2, THEN conjunct1, THEN mp, OF p] by simp_all
  then have "GetZ3Expr v2 ref_x = Inr (App sym_x [])"
    using x by (simp add: extends_def)
  then have r: "GetOrCreateZ3Expr lp64 v2 ref_x = Inr (v2, App sym_x [])"
    by (rule m [THEN conjunct1, THEN mp])
  have r': "GetOrCreateZ3Expr lp64 v2 add_x_x = Inr (v2, s)"
    using s by (rule m [THEN conjunct1, THEN mp])
  have d: "GetZ3Decl ?fd var_x = Inr sym_x"
    and k: "\<exists>d'. GetCValDecl lp64 ?fd sym_x = Inr d'
             \<and> (c_decl_map (Z3ConvVisitor 100) (get_func_decl_id lp64 sym_x) = None \<longrightarrow> d' = var_x)"
    using m [THEN conjunct2, THEN conjunct2, THEN conjunct2, THEN conjunct1, THEN mp, OF forward_x_decl]
    by simp_all
  have "c_decl_map (Z3ConvVisitor 100) (get_func_decl_id lp64 sym_x) = None"
    by (simp add: Z3ConvVisitor_def)
  with k have k': "GetCValDecl lp64 ?fd sym_x = Inr var_x"
    by auto
  have "c_decl_map ?fd (get_func_decl_id lp64 sym_x) \<noteq> None"
    using k' by (auto simp: GetCValDecl_def split: option.splits)
  then have b: "GetOrCreateZ3Decl lp64 ?fd var_x = Inr (?fd, sym_x)"
    using m [THEN conjunct2, THEN conjunct2, THEN conjunct1, THEN mp, OF d] by auto
  have g: "GetCExpr lp64 registry_x (App sym_x []) = Inr (Some node_x)"
    using m [THEN conjunct2, THEN conjunct2, THEN conjunct2, THEN conjunct2, THEN conjunct2, THEN mp, OF reverse_x]
    by (rule conjunct1)
  have c: "GetOrCreateCExpr lp64 registry_x (App sym_x []) = Inr (registry_x, Some node_x)"
    using g by (rule m [THEN conjunct2, THEN conjunct2, THEN conjunct2, THEN conjunct2, THEN conjunct1, THEN mp])
  have e: "\<exists>v2 s. GetOrCreateZ3Expr lp64 forward_x add_x_x = Inr (v2, s)
         \<and> z3_expr_vec v2 = [App sym_x [], s]
         \<and> GetOrCreateZ3Expr lp64 v2 ref_x = Inr (v2, App sym_x [])
         \<and> GetOrCreateZ3Expr lp64 v2 add_x_x = Inr (v2, s)"
    using p q r r' by blast
  show ?thesis
    by (intro conjI forward_x a e forward_x_decl b k' reverse_x c)
qed

section \<open>Parenthesization\<close>

text \<open>
  Claim C6. For a parenthesization that is not yet in the registry and whose sub-expression
  has an application as its term, the term entered for the parenthesization is the sub-term
  under the unary function \<open>Paren\<close> if the sub-term's function symbol is uninterpreted, and
  the sub-term itself for every other kind of function symbol.
\<close>

theorem paren_wraps_uninterpreted_only:
  assumes "z3_expr_map v a = None"
      and "GetOrCreateZ3Expr E v sub = Inr (v1, App d xs)"
      and "z3_expr_map v1 a = None"
  shows "\<exists>v2. VisitParenExpr E v (ParenExpr a sub ty) = Inr v2
            \<and> GetZ3Expr v2 (ParenExpr a sub ty) =
                Inr (if decl_kind d = OP_UNINTERPRETED
                     then App (FuncDecl OP_UNINTERPRETED ''Paren'' [] [decl_range d] (decl_range d)) [App d xs]
                     else App d xs)"
proof (cases "decl_kind d = OP_UNINTERPRETED")
  case True
  then show ?thesis
    using assms
    by (simp add: Paren_switch_def function1_def apply_decl_def InsertZ3Expr_def GetZ3Expr_def Let_def)
next
  case False
  then have "Paren_switch (App d xs) = Inr (App d xs)"
    by (cases "decl_kind d") (simp_all add: Paren_switch_def)
  with False show ?thesis
    using assms by (simp add: InsertZ3Expr_def GetZ3Expr_def)
qed

theorem paren_wraps_uninterpreted_only_witness:
  "map_sum id snd (GetOrCreateZ3Expr lp64 (Z3ConvVisitor 100) ref_x) = Inr (App sym_x [])
   \<and> map_sum id snd (GetOrCreateZ3Expr lp64 (Z3ConvVisitor 100) (ParenExpr 7 ref_x (IntTy True 32)))
        = Inr (App (FuncDecl OP_UNINTERPRETED ''Paren'' [] [BvSort 32] (BvSort 32)) [App sym_x []])
   \<and> map_sum id snd (GetOrCreateZ3Expr lp64 (Z3ConvVisitor 100) lit_5) = Inr (bv_val 5 32)
   \<and> map_sum id snd (GetOrCreateZ3Expr lp64 (Z3ConvVisitor 100) (ParenExpr 7 lit_5 (IntTy True 32)))
        = Inr (bv_val 5 32)"
proof -
  have e: "z3_expr_map (Z3ConvVisitor 100) 7 = None"
    by (simp add: Z3ConvVisitor_def)
  have x: "GetOrCreateZ3Expr lp64 (Z3ConvVisitor 100) ref_x = Inr (forward_x, App sym_x [])"
    by (rule forward_x)
  have x1: "z3_expr_map forward_x 7 = None"
    by (simp add: forward_x_def)
  obtain v5 where l: "GetOrCreateZ3Expr lp64 (Z3ConvVisitor 100) lit_5 = Inr (v5, bv_val 5 32)"
    and l1: "z3_expr_map v5 7 = None"
    by (simp add: run_simps lit_5_def bv_val_def to_int_def getLimitedValue_def)
  note px = paren_wraps_uninterpreted_only [OF e x x1, of "IntTy True 32"]
  note pl = paren_wraps_uninterpreted_only [OF e l [unfolded bv_val_def] l1, of "IntTy True 32"]
  show ?thesis
    using px pl x l e
    by (auto simp: sym_x_def bv_val_def)
qed

section \<open>Conjunctions and disjunctions of any length\<close>

lemma GetCExpr_ast_next [simp]: "GetCExpr E (v\<lparr>ast_next := n\<rparr>) = GetCExpr E v"
  by (rule ext) (simp add: GetCExpr_def)

lemma logical_loop_fold:
  assumes "map (GetCExpr E v) xs = map (\<lambda>e. Inr (Some e)) es"
  shows "logical_loop E v opc (Some acc) xs =
           Inr (v\<lparr>ast_next := ast_next v + length xs\<rparr>,
                Some (foldl (\<lambda>c (a, e). BinaryOperator a opc c e BoolTy) acc
                        (zip [ast_next v ..< ast_next v + length xs] es)))"
  using assms
proof (induction xs arbitrary: v acc es)
  case Nil
  then show ?case by simp
next
  case (Cons x xs)
  then obtain e es' where es: "es = e # es'" and x: "GetCExpr E v x = Inr (Some e)"
    and r: "map (GetCExpr E v) xs = map (\<lambda>e. Inr (Some e)) es'"
    by (cases es) auto
  let ?v = "v\<lparr>ast_next := Suc (ast_next v)\<rparr>"
  have "map (GetCExpr E ?v) xs = map (\<lambda>e. Inr (Some e)) es'"
    using r by simp
  from Cons.IH [OF this]
  have "logical_loop E ?v opc (Some (BinaryOperator (ast_next v) opc acc e BoolTy)) xs =
          Inr (?v\<lparr>ast_next := ast_next ?v + length xs\<rparr>,
               Some (foldl (\<lambda>c (a, e). BinaryOperator a opc c e BoolTy)
                       (BinaryOperator (ast_next v) opc acc e BoolTy)
                       (zip [ast_next ?v ..< ast_next ?v + length xs] es')))" .
  moreover have "[ast_next v ..< ast_next v + length (x # xs)]
                   = ast_next v # [ast_next ?v ..< ast_next ?v + length xs]"
    by (simp add: upt_rec)
  ultimately show ?case
    using x es by (simp add: new_node_def)
qed

text \<open>
  Claim C7. A conjunction (disjunction) term with the arguments \<open>x1, x2, ...\<close>, whose
  expressions \<open>e1, e2, ...\<close> are registered, is decoded into the left fold of binary
  logical-and (logical-or) nodes over these expressions in order, \<open>((e1 && e2) && e3) ...\<close>,
  each node of boolean type and at the next free address.
\<close>

theorem conjunction_decoded_as_left_fold:
  assumes "decl_kind d = OP_AND \<and> opc = BO_LAnd \<or> decl_kind d = OP_OR \<and> opc = BO_LOr"
      and "arity d = 2"
      and "map (GetCExpr E v) (x1 # x2 # xs) = map (\<lambda>e. Inr (Some e)) (e1 # e2 # es)"
      and "c_expr_map v (hash E (App d (x1 # x2 # xs))) = None"
  shows "\<exists>v'. VisitBinaryApp E v (App d (x1 # x2 # xs)) = Inr v'
            \<and> GetCExpr E v' (App d (x1 # x2 # xs)) =
                Inr (Some (foldl (\<lambda>c (a, e). BinaryOperator a opc c e BoolTy) e1
                             (zip [ast_next v ..< ast_next v + Suc (length xs)] (e2 # es))))"
proof -
  have g: "GetCExpr E v x1 = Inr (Some e1)" "GetCExpr E v x2 = Inr (Some e2)"
    and r: "map (GetCExpr E v) (x2 # xs) = map (\<lambda>e. Inr (Some e)) (e2 # es)"
    using assms(3) by auto
  have l: "logical_loop E v opc (Some e1) (x2 # xs) =
           Inr (v\<lparr>ast_next := ast_next v + length (x2 # xs)\<rparr>,
                Some (foldl (\<lambda>c (a, e). BinaryOperator a opc c e BoolTy) e1
                        (zip [ast_next v ..< ast_next v + length (x2 # xs)] (e2 # es))))"
    by (rule logical_loop_fold [OF r])
  have s: "BinaryApp_switch E v (App d (x1 # x2 # xs)) d (Some e1) (Some e2)
             = logical_loop E v opc (Some e1) (x2 # xs)"
    using assms(1) by (auto simp: BinaryApp_switch_def)
  show ?thesis
    using assms(2,4) g
    by (simp add: VisitBinaryApp_def arg_def s l InsertCExpr_def GetCExpr_def Let_def del: logical_loop.simps upt_Suc)
qed

theorem conjunction_decoded_as_left_fold_witness:
  "map_sum id snd (GetOrCreateCExpr lp64 forward_b and_b_true_false)
     = Inr (Some (BinaryOperator 104 BO_LAnd
                    (BinaryOperator 103 BO_LAnd (DeclRefExpr 100 var_b BoolTy)
                       (IntegerLiteral 101 1 (IntTy False 32)) BoolTy)
                    (IntegerLiteral 102 0 (IntTy False 32)) BoolTy))"
proof -
  let ?xs = "[App sym_b [], bool_val True, bool_val False]"
  let ?es = "[DeclRefExpr 100 var_b BoolTy, IntegerLiteral 101 1 (IntTy False 32),
              IntegerLiteral 102 0 (IntTy False 32)]"
  let ?d = "FuncDecl OP_AND ''and'' [] [BoolSort, BoolSort] BoolSort"
  obtain va where a: "VisitZ3Expr_args lp64 forward_b ?xs = Inr va"
    and m: "map (GetCExpr lp64 va) ?xs = map (\<lambda>e. Inr (Some e)) ?es"
    and f: "c_expr_map va (hash lp64 (App ?d ?xs)) = None"
    and n: "ast_next va = 103"
    by (simp add: run_simps rev_simps forward_b_def sym_b_def var_b_def)
  have k: "decl_kind ?d = OP_AND \<and> BO_LAnd = BO_LAnd \<or> decl_kind ?d = OP_OR \<and> BO_LAnd = BO_LOr"
    by simp
  have r: "arity ?d = 2"
    by (simp add: arity_def)
  from conjunction_decoded_as_left_fold [OF k r m f]
  obtain v' where b: "VisitBinaryApp lp64 va (App ?d ?xs) = Inr v'"
    and c: "GetCExpr lp64 v' (App ?d ?xs) =
              Inr (Some (foldl (\<lambda>c (a, e). BinaryOperator a BO_LAnd c e BoolTy) (DeclRefExpr 100 var_b BoolTy)
                           (zip [ast_next va ..< ast_next va + Suc (length [bool_val False])]
                              [IntegerLiteral 101 1 (IntTy False 32), IntegerLiteral 102 0 (IntTy False 32)])))"
    by auto
  have e: "c_expr_map forward_b (hash lp64 (App ?d ?xs)) = None"
    by (simp add: forward_b_def)
  have u: "[103 ..< 105] = [103, 104::nat]"
    by (simp add: upt_rec)
  have "GetOrCreateCExpr lp64 forward_b (App ?d ?xs) = Inr (v', Some (BinaryOperator 104 BO_LAnd
                    (BinaryOperator 103 BO_LAnd (DeclRefExpr 100 var_b BoolTy)
                       (IntegerLiteral 101 1 (IntTy False 32)) BoolTy)
                    (IntegerLiteral 102 0 (IntTy False 32)) BoolTy))"
    using a b c e r
    by (simp add: n u del: VisitZ3Expr_args.simps)
  then show ?thesis
    by (simp add: and_b_true_false_def)
qed

section \<open>Names of declaration symbols\<close>

lemma hex_digit_inj:
  assumes "a < 16" and "b < 16" and "hex_digit a = hex_digit b"
  shows "a = b"
proof -
  have d: "distinct ''0123456789abcdef''" by simp
  have l: "length ''0123456789abcdef'' = 16" by simp
  show ?thesis
    using assms nth_eq_iff_index_eq [OF d, of a b] by (simp add: hex_digit_def)
qed

lemma hex_digit_no_underscore:
  assumes "d < 16"
  shows "hex_digit d \<noteq> CHR ''_''"
proof -
  have "hex_digit d \<in> set ''0123456789abcdef''"
    unfolding hex_digit_def using assms by (intro nth_mem) simp
  then show ?thesis by auto
qed

lemma hex_of_nat_no_underscore: "CHR ''_'' \<notin> set (hex_of_nat n)"
proof (induction n rule: hex_of_nat.induct)
  case (1 n)
  show ?case
  proof (cases "n < 16")
    case True
    then show ?thesis
      using hex_digit_no_underscore [of n] by (simp add: hex_of_nat.simps [of n])
  next
    case False
    then show ?thesis
      using 1 hex_digit_no_underscore [of "n mod 16"] by (simp add: hex_of_nat.simps [of n])
  qed
qed

lemma hex_of_nat_not_Nil: "hex_of_nat n \<noteq> []"
  by (simp add: hex_of_nat.simps [of n])

lemma hex_of_nat_inj: "hex_of_nat a = hex_of_nat b \<Longrightarrow> a = b"
proof (induction a arbitrary: b rule: hex_of_nat.induct)
  case (1 a)
  show ?case
  proof (cases "a < 16")
    case True
    note a = this
    show ?thesis
    proof (cases "b < 16")
      case True
      with a 1(2) show ?thesis
        using hex_digit_inj [of a b] by (simp add: hex_of_nat.simps [of a] hex_of_nat.simps [of b])
    next
      case False
      with a 1(2) show ?thesis
        using hex_of_nat_not_Nil [of "b div 16"]
        by (simp add: hex_of_nat.simps [of a] hex_of_nat.simps [of b])
    qed
  next
    case False
    note a = this
    show ?thesis
    proof (cases "b < 16")
      case True
      with a 1(2) show ?thesis
        using hex_of_nat_not_Nil [of "a div 16"]
        by (simp add: hex_of_nat.simps [of a] hex_of_nat.simps [of b])
    next
      case False
      with a 1(2) have p: "hex_of_nat (a div 16) = hex_of_nat (b div 16)"
        and d: "hex_digit (a mod 16) = hex_digit (b mod 16)"
        by (simp_all add: hex_of_nat.simps [of a] hex_of_nat.simps [of b])
      have "a div 16 = b div 16"
        using 1(1) [OF a p] .
      moreover have "a mod 16 = b mod 16"
        using d hex_digit_inj [of "a mod 16" "b mod 16"] by simp
      ultimately show ?thesis
        by (metis div_mult_mod_eq)
    qed
  qed
qed

lemma split_at_mark:
  assumes "c \<notin> set h1" and "c \<notin> set h2" and "h1 @ c # n1 = h2 @ c # n2"
  shows "h1 = h2 \<and> n1 = n2"
  using assms
proof (induction h1 arbitrary: h2)
  case Nil
  then show ?case by (cases h2) auto
next
  case (Cons x h1)
  then show ?case by (cases h2) auto
qed

lemma CreateZ3DeclName_inj:
  assumes "CreateZ3DeclName d1 = CreateZ3DeclName d2"
  shows "d1 = d2"
proof -
  have "hex_of_nat (decl_addr d1) @ CHR ''_'' # getNameAsString d1
          = hex_of_nat (decl_addr d2) @ CHR ''_'' # getNameAsString d2"
    using assms by (simp add: CreateZ3DeclName_def pointer_str_def)
  then have "hex_of_nat (decl_addr d1) = hex_of_nat (decl_addr d2) \<and> getNameAsString d1 = getNameAsString d2"
    by (rule split_at_mark [OF hex_of_nat_no_underscore hex_of_nat_no_underscore])
  then show ?thesis
    using hex_of_nat_inj by (simp add: named_decl.expand)
qed

lemma GetOrCreateZ3Decl_fresh:
  assumes "z3_decl_map v (decl_addr (as_named d)) = None"
      and "TraverseDecl E v d = Inr v1"
      and "GetZ3Decl v1 d = Inr f"
  shows "\<exists>v'. GetOrCreateZ3Decl E v d = Inr (v', f)"
  using assms by (simp add: GetOrCreateZ3Decl_def InsertCValDecl_def Let_def)

lemma variable_symbol_name:
  assumes "z3_decl_map v (decl_addr var) = None" and "GetZ3Sort E ty = Inr s"
  shows "\<exists>v'. GetOrCreateZ3Decl E v (VarDecl var ty)
               = Inr (v', FuncDecl OP_UNINTERPRETED (CreateZ3DeclName var) [] [] s)"
proof -
  let ?f = "FuncDecl OP_UNINTERPRETED (CreateZ3DeclName var) [] [] s"
  let ?v = "v\<lparr>z3_decl_map := (z3_decl_map v)(decl_addr var \<mapsto> length (z3_decl_vec v)),
              z3_decl_vec := z3_decl_vec v @ [?f]\<rparr>"
  have t: "TraverseDecl E v (VarDecl var ty) = Inr ?v"
    using assms by (simp add: z3_constant_def InsertZ3Decl_def Let_def)
  have g: "GetZ3Decl ?v (VarDecl var ty) = Inr ?f"
    by (simp add: GetZ3Decl_def)
  show ?thesis
    using assms GetOrCreateZ3Decl_fresh [OF _ t g] by simp
qed

lemma field_symbol_name:
  assumes "z3_decl_map v (decl_addr field) = None" and "GetZ3Sort E fty = Inr fs"
  shows "\<exists>v'. GetOrCreateZ3Decl E v (FieldDecl field fty parent)
               = Inr (v', FuncDecl OP_UNINTERPRETED
                           (CreateZ3DeclName parent @ ''_'' @ c_str_after_free E (getNameAsString field))
                           [] [] fs)"
proof -
  let ?f = "FuncDecl OP_UNINTERPRETED
              (CreateZ3DeclName parent @ ''_'' @ c_str_after_free E (getNameAsString field)) [] [] fs"
  let ?v = "v\<lparr>z3_decl_map := (z3_decl_map v)(decl_addr field \<mapsto> length (z3_decl_vec v)),
              z3_decl_vec := z3_decl_vec v @ [?f]\<rparr>"
  have t: "TraverseDecl E v (FieldDecl field fty parent) = Inr ?v"
    using assms by (simp add: z3_constant_def InsertZ3Decl_def Let_def)
  have g: "GetZ3Decl ?v (FieldDecl field fty parent) = Inr ?f"
    by (simp add: GetZ3Decl_def)
  show ?thesis
    using assms GetOrCreateZ3Decl_fresh [OF _ t g] by simp
qed

text \<open>
  Claim C8, at an input where the code departs from it: the two fields \<open>f\<close> and \<open>g\<close> of the
  record \<open>S\<close>. The symbol of a variable is named by the variable's own address and name
  (\<open>variable_symbol_name\<close>), and such names are distinct for distinct declarations
  (\<open>CreateZ3DeclName_inj\<close>). The symbol of a field is not obtained in that way. Its name starts
  with the address and the name of the parent record and ends with the characters found
  behind the stale pointer to the field's name. Whatever these characters are, once the
  storage no longer holds the name the two fields get one and the same symbol, which is
  registered for \<open>f\<close> only; with cleared storage the comparison \<open>s.f == s.g\<close> is decoded as
  \<open>s.f == s.f\<close>.
\<close>

theorem field_symbol_read_after_free:
  "(\<forall>chars. \<exists>v1 v2.
      GetOrCreateZ3Decl (freed_storage_holds chars lp64) (Z3ConvVisitor 100) field_f
        = Inr (v1, FuncDecl OP_UNINTERPRETED (''0x50_S_'' @ chars) [] [] (BvSort 32))
    \<and> GetOrCreateZ3Decl (freed_storage_holds chars lp64) v1 field_g
        = Inr (v2, FuncDecl OP_UNINTERPRETED (''0x50_S_'' @ chars) [] [] (BvSort 32))
    \<and> GetCValDecl (freed_storage_holds chars lp64) v2
         (FuncDecl OP_UNINTERPRETED (''0x50_S_'' @ chars) [] [] (BvSort 32)) = Inr field_f)
   \<and> CreateZ3DeclName (as_named field_f) = ''0x40_f''
   \<and> CreateZ3DeclName (as_named field_g) = ''0x48_g''
   \<and> map_sum id snd (round_trip lp64 (Z3ConvVisitor 100) eq_s_f_s_g)
        = Inr (Some (BinaryOperator 103 BO_EQ
                       (MemberExpr 102 (DeclRefExpr 100 var_s (StructTy ''S'')) field_f False (IntTy True 32))
                       (MemberExpr 102 (DeclRefExpr 100 var_s (StructTy ''S'')) field_f False (IntTy True 32))
                       BoolTy))"
proof -
  have a: "\<forall>chars. \<exists>v1 v2.
      GetOrCreateZ3Decl (freed_storage_holds chars lp64) (Z3ConvVisitor 100) field_f
        = Inr (v1, FuncDecl OP_UNINTERPRETED (''0x50_S_'' @ chars) [] [] (BvSort 32))
    \<and> GetOrCreateZ3Decl (freed_storage_holds chars lp64) v1 field_g
        = Inr (v2, FuncDecl OP_UNINTERPRETED (''0x50_S_'' @ chars) [] [] (BvSort 32))
    \<and> GetCValDecl (freed_storage_holds chars lp64) v2
         (FuncDecl OP_UNINTERPRETED (''0x50_S_'' @ chars) [] [] (BvSort 32)) = Inr field_f"
    by (simp add: run_simps field_f_def field_g_def freed_storage_holds_def)
  have b: "CreateZ3DeclName (as_named field_f) = ''0x40_f''"
    by (simp add: run_simps field_f_def)
  have c: "CreateZ3DeclName (as_named field_g) = ''0x48_g''"
    by (simp add: run_simps field_g_def)
  have d: "map_sum id snd (round_trip lp64 (Z3ConvVisitor 100) eq_s_f_s_g)
        = Inr (Some (BinaryOperator 103 BO_EQ
                       (MemberExpr 102 (DeclRefExpr 100 var_s (StructTy ''S'')) field_f False (IntTy True 32))
                       (MemberExpr 102 (DeclRefExpr 100 var_s (StructTy ''S'')) field_f False (IntTy True 32))
                       BoolTy))"
    by (simp add: round_trip_def eq_s_f_s_g_def field_f_def field_g_def var_s_def run_simps rev_simps
          mk_eq_def function2_def VisitBinaryApp_def arg_def BinaryApp_switch_def BinaryOperator_switch_def)
  show ?thesis
    by (intro conjI a b c d)
qed

section \<open>Round trip of binary operators\<close>











end
